theory Spec2Isabelle
  imports Complex_Main "HOL-Library.Word" "HOL-Library.Multiset"
begin

chapter \<open>The model\<close>

section \<open>Python numbers\<close>

text \<open>
  Python's \<^verbatim>\<open>int(x)\<close> on a float truncates toward zero: it is the floor of a
  non-negative number and the ceiling of a negative one.
\<close>

definition py_int :: "'a::floor_ceiling \<Rightarrow> int" where
  "py_int q = (if 0 \<le> q then \<lfloor>q\<rfloor> else \<lceil>q\<rceil>)"

text \<open>
  The animators compute the reveal progress in double precision. A float operation
  returns the exact result rounded to a double; the rounding is the parameter
  \<open>rnd\<close> of the functions below (the identity gives exact arithmetic, and IEEE-754
  round-to-nearest is monotone). Python ints convert to floats exactly below \<open>2^53\<close>.
\<close>

type_synonym rounding = "rat \<Rightarrow> rat"

text \<open>
  \<^verbatim>\<open>total_frames = int(fps * duration)\<close>, in every animator
  (\<^verbatim>\<open>sketch_animate_v2.py\<close> line 138, \<^verbatim>\<open>sketch_animate_color.py\<close> line 91,
  \<^verbatim>\<open>sketch_animate.py\<close> line 300, \<^verbatim>\<open>sketch_animate_highlight.py\<close> line 87,
  \<^verbatim>\<open>sketch_animate_whiteboard.py\<close> line 166).
\<close>

definition total_frames_of :: "rounding \<Rightarrow> int \<Rightarrow> rat \<Rightarrow> int" where
  "total_frames_of rnd fps duration = py_int (rnd (of_int fps * duration))"

section \<open>Reveal progress\<close>

text \<open>
  \<^verbatim>\<open>progress = (frame_idx + 1) / total_frames\<close>, evaluated inside
  \<^verbatim>\<open>for frame_idx in range(total_frames)\<close>, so the divisor is positive there.
\<close>

definition progress :: "rounding \<Rightarrow> nat \<Rightarrow> int \<Rightarrow> rat" where
  "progress rnd frame_idx total_frames = rnd (of_nat (frame_idx + 1) / of_int total_frames)"

text \<open>\<^verbatim>\<open>contours_to_draw = int(len(contours) * progress)\<close> (\<^verbatim>\<open>sketch_animate_v2.py\<close>, line 191).\<close>

definition contours_to_draw :: "rounding \<Rightarrow> nat \<Rightarrow> nat \<Rightarrow> int \<Rightarrow> int" where
  "contours_to_draw rnd n_contours frame_idx total_frames =
     py_int (rnd (of_nat n_contours * progress rnd frame_idx total_frames))"

text \<open>\<^verbatim>\<open>pixels_to_draw = int(total_pixels * progress)\<close> (\<^verbatim>\<open>sketch_animate_color.py\<close>, line 163;
  the highlight animator's \<^verbatim>\<open>pixels_drawn\<close>, line 168, is the same expression).\<close>

definition pixels_to_draw :: "rounding \<Rightarrow> nat \<Rightarrow> nat \<Rightarrow> int \<Rightarrow> int" where
  "pixels_to_draw rnd total_pixels frame_idx total_frames =
     py_int (rnd (of_nat total_pixels * progress rnd frame_idx total_frames))"

text \<open>\<^verbatim>\<open>paths_to_draw = max(1, int(len(paths) * progress))\<close> (\<^verbatim>\<open>sketch_animate.py\<close>, line 356).\<close>

definition paths_to_draw :: "rounding \<Rightarrow> nat \<Rightarrow> nat \<Rightarrow> int \<Rightarrow> int" where
  "paths_to_draw rnd n_paths frame_idx total_frames =
     max 1 (py_int (rnd (of_nat n_paths * progress rnd frame_idx total_frames)))"

section \<open>Cursor overlays\<close>

text \<open>
  The highlight animator (\<^verbatim>\<open>sketch_animate_highlight.py\<close>, lines 161 and 211-212):
  \<^verbatim>\<open>cursor_size = 25\<close>, \<^verbatim>\<open>pulse = 0.8 + 0.2 * np.sin(frame_idx * 0.3)\<close>,
  \<^verbatim>\<open>cursor_radius = int(cursor_size * pulse)\<close>. The sine is the real one.
\<close>

definition highlight_pulse :: "nat \<Rightarrow> real" where
  "highlight_pulse frame_idx = 0.8 + 0.2 * sin (real frame_idx * 0.3)"

definition cursor_radius :: "nat \<Rightarrow> int" where
  "cursor_radius frame_idx = py_int (25 * highlight_pulse frame_idx)"

text \<open>
  The whiteboard animator's \<^verbatim>\<open>draw_hand_cursor\<close> (\<^verbatim>\<open>sketch_animate_whiteboard.py\<close>,
  lines 148-149): \<^verbatim>\<open>pulse = 0.85 + 0.15 * np.sin(frame_idx * 0.2)\<close>,
  \<^verbatim>\<open>size = int(20 * pulse)\<close>.
\<close>

definition hand_cursor_pulse :: "nat \<Rightarrow> real" where
  "hand_cursor_pulse frame_idx = 0.85 + 0.15 * sin (real frame_idx * 0.2)"

definition hand_cursor_size :: "nat \<Rightarrow> int" where
  "hand_cursor_size frame_idx = py_int (20 * hand_cursor_pulse frame_idx)"

section \<open>Images\<close>

unbundle bit_operations_syntax

text \<open>
  A numpy array of shape \<open>(h, w)\<close> or \<open>(h, w, 3)\<close> with \<^verbatim>\<open>dtype=np.uint8\<close>: its shape and
  its samples. An operation that writes into an array in place, and an OpenCV function
  documented to return an image of the size of its source, keep the shape and change
  the samples only.
\<close>

type_synonym byte = "8 word"

record 'p image =
  im_h :: nat
  im_w :: nat
  im_px :: "nat \<Rightarrow> nat \<Rightarrow> 'p"

type_synonym gray = "byte image"

text \<open>The pixel coordinates \<open>(y, x)\<close> of an \<open>h \<times> w\<close> image in row-major order, the order
  of \<^verbatim>\<open>np.where\<close> and of \<^verbatim>\<open>tobytes\<close>.\<close>

definition coords :: "nat \<Rightarrow> nat \<Rightarrow> (nat \<times> nat) list" where
  "coords h w = concat (map (\<lambda>y. map (\<lambda>x. (y, x)) [0..<w]) [0..<h])"

text \<open>\<^verbatim>\<open>np.ones((h, w), ...) * v\<close> and \<^verbatim>\<open>np.zeros((h, w), np.uint8)\<close>.\<close>

definition np_full :: "nat \<Rightarrow> nat \<Rightarrow> 'p \<Rightarrow> 'p image" where
  "np_full h w v = \<lparr>im_h = h, im_w = w, im_px = \<lambda>y x. v\<rparr>"

definition np_zeros :: "nat \<Rightarrow> nat \<Rightarrow> gray" where
  "np_zeros h w = np_full h w 0"

section \<open>Skeletonization in the normalizer\<close>

text \<open>
  The OpenCV calls of the skeletonization loop, on single-channel 8-bit images, with
  the arguments the code passes: \<^verbatim>\<open>kernel = np.ones((3, 3), np.uint8)\<close>, the anchor at the
  kernel's centre, one iteration, and the default border. \<^verbatim>\<open>cv2.erode\<close> takes the
  minimum over the 3\<times>3 window and \<^verbatim>\<open>cv2.dilate\<close> the maximum; by OpenCV's default
  border (\<^verbatim>\<open>BORDER_CONSTANT\<close> with \<^verbatim>\<open>morphologyDefaultBorderValue()\<close>) the samples
  outside the image count as 255 for the minimum and as 0 for the maximum, that is,
  the window is cut to the image.
\<close>

definition window3 :: "nat \<Rightarrow> nat \<Rightarrow> nat \<Rightarrow> nat \<Rightarrow> (nat \<times> nat) list" where
  "window3 h w y x =
     concat (map (\<lambda>y'. map (\<lambda>x'. (y', x')) [x - 1 ..< min w (x + 2)]) [y - 1 ..< min h (y + 2)])"

definition erode :: "gray \<Rightarrow> gray" where
  "erode src = src\<lparr>im_px := \<lambda>y x.
     fold (\<lambda>(y', x') m. min (im_px src y' x') m) (window3 (im_h src) (im_w src) y x) 255\<rparr>"

definition dilate :: "gray \<Rightarrow> gray" where
  "dilate src = src\<lparr>im_px := \<lambda>y x.
     fold (\<lambda>(y', x') m. max (im_px src y' x') m) (window3 (im_h src) (im_w src) y x) 0\<rparr>"

text \<open>\<^verbatim>\<open>cv2.morphologyEx(src, cv2.MORPH_OPEN, kernel)\<close>: an erosion followed by a dilation.\<close>

definition morph_open :: "gray \<Rightarrow> gray" where
  "morph_open src = dilate (erode src)"

text \<open>\<^verbatim>\<open>cv2.subtract\<close> saturates at 0; \<^verbatim>\<open>cv2.bitwise_or\<close> and \<^verbatim>\<open>cv2.bitwise_not\<close> work
  bit by bit; \<^verbatim>\<open>cv2.countNonZero\<close> counts the samples that are not 0.\<close>

definition subtract :: "gray \<Rightarrow> gray \<Rightarrow> gray" where
  "subtract a b = a\<lparr>im_px := \<lambda>y x.
     if im_px a y x < im_px b y x then 0 else im_px a y x - im_px b y x\<rparr>"

definition bitwise_or :: "gray \<Rightarrow> gray \<Rightarrow> gray" where
  "bitwise_or a b = a\<lparr>im_px := \<lambda>y x. im_px a y x OR im_px b y x\<rparr>"

definition bitwise_not :: "gray \<Rightarrow> gray" where
  "bitwise_not a = a\<lparr>im_px := \<lambda>y x. NOT (im_px a y x)\<rparr>"

definition countNonZero :: "gray \<Rightarrow> nat" where
  "countNonZero a = length (filter (\<lambda>(y, x). im_px a y x \<noteq> 0) (coords (im_h a) (im_w a)))"

text \<open>
  The loop of \<^verbatim>\<open>preprocess_image\<close> (\<^verbatim>\<open>sketch_animate.py\<close>, lines 134-141, and
  \<^verbatim>\<open>sketch_animate_v2.py\<close>, lines 85-92):
  \<^verbatim>\<open>
  while True:
      opened = cv2.morphologyEx(binary, cv2.MORPH_OPEN, kernel)
      temp = cv2.subtract(binary, opened)
      eroded = cv2.erode(binary, kernel)
      skeleton = cv2.bitwise_or(skeleton, temp)
      binary = eroded.copy()
      if cv2.countNonZero(binary) == 0:
          break
  \<close>
  The loop has no bound of its own; a run that never leaves it is the value \<open>None\<close>.
\<close>

partial_function (option) skeleton_loop :: "gray \<Rightarrow> gray \<Rightarrow> gray option" where
  "skeleton_loop binary skeleton =
     (let opened = morph_open binary;
          temp = subtract binary opened;
          eroded = erode binary;
          skeleton' = bitwise_or skeleton temp
      in if countNonZero eroded = 0 then Some skeleton'
         else skeleton_loop eroded skeleton')"

text \<open>
  The skeletonization branch after the threshold: \<^verbatim>\<open>skeleton = np.zeros(binary.shape, np.uint8)\<close>,
  the loop, and \<^verbatim>\<open>cv2.bitwise_not(skeleton)\<close>. Its argument is the thresholded image
  \<^verbatim>\<open>binary\<close> (\<^verbatim>\<open>THRESH_BINARY_INV + THRESH_OTSU\<close>: 255 on the foreground, 0 elsewhere).
\<close>

definition skeletonize :: "gray \<Rightarrow> gray option" where
  "skeletonize binary =
     map_option bitwise_not (skeleton_loop binary (np_zeros (im_h binary) (im_w binary)))"

text \<open>An image whose every sample is foreground (255).\<close>

definition all_foreground :: "gray \<Rightarrow> bool" where
  "all_foreground a = list_all (\<lambda>(y, x). im_px a y x = 255) (coords (im_h a) (im_w a))"

section \<open>Colour images and raw frames\<close>

text \<open>A pixel of an 8-bit three-channel image: its three samples in memory order
  (\<open>B, G, R\<close> as OpenCV reads an image; \<open>R, G, B\<close> after the conversion for the encoder).\<close>

type_synonym bgr = "byte \<times> byte \<times> byte"

type_synonym frame = "byte list"

definition white :: bgr where
  "white = (255, 255, 255)"

text \<open>\<^verbatim>\<open>canvas.tobytes()\<close>: the samples in row-major order, three per pixel.\<close>

definition tobytes :: "bgr image \<Rightarrow> frame" where
  "tobytes a =
     concat (map (\<lambda>(y, x). case im_px a y x of (c0, c1, c2) \<Rightarrow> [c0, c1, c2]) (coords (im_h a) (im_w a)))"

text \<open>\<^verbatim>\<open>cv2.cvtColor(canvas, cv2.COLOR_BGR2RGB)\<close> swaps the first and the third channel;
  \<^verbatim>\<open>cv2.cvtColor(img, cv2.COLOR_GRAY2BGR)\<close> repeats the grey sample.\<close>

definition cvtColor_BGR2RGB :: "bgr image \<Rightarrow> bgr image" where
  "cvtColor_BGR2RGB a = a\<lparr>im_px := \<lambda>y x. case im_px a y x of (b, g, r) \<Rightarrow> (r, g, b)\<rparr>"

definition cvtColor_GRAY2BGR :: "gray \<Rightarrow> bgr image" where
  "cvtColor_GRAY2BGR a = \<lparr>im_h = im_h a, im_w = im_w a, im_px = \<lambda>y x. (im_px a y x, im_px a y x, im_px a y x)\<rparr>"

text \<open>
  \<^verbatim>\<open>canvas[ys, xs] = img_color[ys, xs]\<close> for the coordinate rows \<open>ps\<close>, and
  \<^verbatim>\<open>canvas[mask > 0] = img_color[mask > 0]\<close>: the listed pixels take the source's
  samples, in place. The coordinates come from \<^verbatim>\<open>np.where\<close> on an array of the image's
  shape, so every index is in range.
\<close>

definition reveal :: "bgr image \<Rightarrow> bgr image \<Rightarrow> (nat \<times> nat) list \<Rightarrow> bgr image" where
  "reveal canvas src ps =
     canvas\<lparr>im_px := \<lambda>y x. if (y, x) \<in> set ps then im_px src y x else im_px canvas y x\<rparr>"

text \<open>
  The OpenCV primitives the animators call, as parameters: which pixels a contour covers
  when \<^verbatim>\<open>cv2.drawContours\<close> draws it with a given thickness (\<open>-1\<close> fills it), the
  moments \<open>(m00, m10, m01)\<close> and the area of a contour, the polygon
  \<^verbatim>\<open>cv2.approxPolyDP(contour, 0.003 * cv2.arcLength(contour, True), True)\<close> as a list of
  points \<open>(x, y)\<close>, the anti-aliased line (end points, colour, thickness) and filled
  circle (centre, radius, colour), and \<^verbatim>\<open>cv2.GaussianBlur(canvas, (3, 3), 0)\<close>. A contour
  is a value of the type \<open>'c\<close>.
\<close>

record 'c opencv =
  contour_covers :: "'c \<Rightarrow> int \<Rightarrow> nat \<Rightarrow> nat \<Rightarrow> bool"
  contour_moments :: "'c \<Rightarrow> rat \<times> rat \<times> rat"
  contour_area :: "'c \<Rightarrow> rat"
  approx_poly :: "'c \<Rightarrow> (int \<times> int) list"
  line_aa :: "int \<times> int \<Rightarrow> int \<times> int \<Rightarrow> bgr \<Rightarrow> int \<Rightarrow> bgr image \<Rightarrow> bgr image"
  circle_aa :: "int \<times> int \<Rightarrow> int \<Rightarrow> bgr \<Rightarrow> bgr image \<Rightarrow> bgr image"
  gaussian_blur3 :: "bgr image \<Rightarrow> bgr image"

text \<open>A primitive that draws into the canvas in place, or returns an image of the size
  of its source, changes the samples and keeps the shape.\<close>

definition keeping_shape :: "(bgr image \<Rightarrow> bgr image) \<Rightarrow> bgr image \<Rightarrow> bgr image" where
  "keeping_shape draw canvas = canvas\<lparr>im_px := im_px (draw canvas)\<rparr>"

text \<open>\<^verbatim>\<open>cv2.drawContours(canvas, contours, i, color, thickness)\<close> with the default line type
  sets the covered pixels to the colour.\<close>

definition drawContours :: "'c opencv \<Rightarrow> 'p image \<Rightarrow> 'c \<Rightarrow> 'p \<Rightarrow> int \<Rightarrow> 'p image" where
  "drawContours cv canvas contour color thickness =
     canvas\<lparr>im_px := \<lambda>y x. if contour_covers cv contour thickness y x then color else im_px canvas y x\<rparr>"

section \<open>Configuration\<close>

text \<open>The keys of the \<^verbatim>\<open>config\<close> dictionary that the frame loops read. A negative width
  or height makes \<^verbatim>\<open>np.ones\<close> raise; the sizes are naturals here.\<close>

record config =
  width :: nat
  height :: nat
  fps :: int
  duration :: rat

definition total_frames :: "rounding \<Rightarrow> config \<Rightarrow> int" where
  "total_frames rnd cfg = total_frames_of rnd (fps cfg) (duration cfg)"

section \<open>The global random generator\<close>

text \<open>
  numpy's global generator: \<^verbatim>\<open>np.random.seed(n)\<close> replaces its state by the state the
  seed determines, and a draw returns a sample and the next state. The generator itself
  (a Mersenne Twister and a normal transform) is a parameter; \<open>'g\<close> is its state.
\<close>

record 'g np_random =
  seed_state :: "nat \<Rightarrow> 'g"
  next_gauss :: "'g \<Rightarrow> rat \<times> 'g"

text \<open>\<^verbatim>\<open>np.random.randn(n)\<close>: \<open>n\<close> draws in a row.\<close>

fun randn :: "'g np_random \<Rightarrow> nat \<Rightarrow> 'g \<Rightarrow> rat list \<times> 'g" where
  "randn R 0 g = ([], g)"
| "randn R (Suc n) g =
     (case next_gauss R g of (r, g') \<Rightarrow> (case randn R n g' of (rs, g'') \<Rightarrow> (r # rs, g'')))"

section \<open>Ordering the stroke pixels\<close>

text \<open>\<^verbatim>\<open>np.column_stack(np.where(mask > 0))\<close>: the coordinates \<open>(y, x)\<close> of the positive
  samples, in row-major order.\<close>

definition np_where_positive :: "gray \<Rightarrow> (nat \<times> nat) list" where
  "np_where_positive mask_img =
     filter (\<lambda>(y, x). 0 < im_px mask_img y x) (coords (im_h mask_img) (im_w mask_img))"

text \<open>
  The stroke pixels of the colour and of the highlight animator
  (\<^verbatim>\<open>sketch_animate_color.py\<close>, lines 106-112; \<^verbatim>\<open>sketch_animate_highlight.py\<close>, lines 104-110):
  \<^verbatim>\<open>
  stroke_pixels = np.column_stack(np.where(mask > 0))
  total_pixels = len(stroke_pixels)
  if total_pixels == 0:
      stroke_pixels = np.column_stack(np.where(np.ones((height, width), dtype=bool)))
      total_pixels = len(stroke_pixels)
  \<close>
\<close>

definition find_stroke_pixels :: "config \<Rightarrow> gray \<Rightarrow> (nat \<times> nat) list" where
  "find_stroke_pixels cfg mask_img =
     (let stroke_pixels = np_where_positive mask_img;
          total_pixels = length stroke_pixels
      in if total_pixels = 0 then coords (height cfg) (width cfg) else stroke_pixels)"

text \<open>
  \<^verbatim>\<open>np.argsort(scores)\<close>: the indices in the order of their scores. numpy leaves the
  order of equal scores to the implementation; here equal scores keep their order.
\<close>

definition np_argsort :: "rat list \<Rightarrow> nat list" where
  "np_argsort scores = sort_key (\<lambda>i. scores ! i) [0..<length scores]"

text \<open>
  \<^verbatim>\<open>scores = stroke_pixels[:, 0] * wy + stroke_pixels[:, 1] * wx + np.random.randn(total_pixels) * s\<close>,
  each product and each sum rounded to a double.
\<close>

definition jitter_scores :: "rounding \<Rightarrow> rat \<Rightarrow> rat \<Rightarrow> rat \<Rightarrow> (nat \<times> nat) list \<Rightarrow> rat list \<Rightarrow> rat list" where
  "jitter_scores rnd wy wx s stroke_pixels noise =
     map (\<lambda>((y, x), r). rnd (rnd (rnd (of_nat y * rnd wy) + rnd (of_nat x * rnd wx)) + rnd (r * s)))
       (zip stroke_pixels noise)"

text \<open>
  The colour animator (\<^verbatim>\<open>sketch_animate_color.py\<close>, lines 118-121):
  \<^verbatim>\<open>
  np.random.seed(42)  # Reproducible
  scores = stroke_pixels[:, 0] * 0.6 + stroke_pixels[:, 1] * 0.4 + np.random.randn(total_pixels) * 20
  sorted_indices = np.argsort(scores)
  stroke_pixels = stroke_pixels[sorted_indices]
  \<close>
  The function takes the state \<open>g\<close> the global generator is in when the lines run and
  returns the sorted pixels with the state it is left in.
\<close>

definition color_sort_pixels ::
  "rounding \<Rightarrow> 'g np_random \<Rightarrow> (nat \<times> nat) list \<Rightarrow> 'g \<Rightarrow> (nat \<times> nat) list \<times> 'g" where
  "color_sort_pixels rnd R stroke_pixels g =
     (let g1 = seed_state R 42 in
      case randn R (length stroke_pixels) g1 of (noise, g2) \<Rightarrow>
        (let scores = jitter_scores rnd (6 / 10) (4 / 10) 20 stroke_pixels noise;
             sorted_indices = np_argsort scores
         in (map (\<lambda>i. stroke_pixels ! i) sorted_indices, g2)))"

text \<open>The highlight animator (\<^verbatim>\<open>sketch_animate_highlight.py\<close>, lines 115-123): the same
  with the weights 0.5 and 0.5 and the spread 30.\<close>

definition highlight_sort_pixels ::
  "rounding \<Rightarrow> 'g np_random \<Rightarrow> (nat \<times> nat) list \<Rightarrow> 'g \<Rightarrow> (nat \<times> nat) list \<times> 'g" where
  "highlight_sort_pixels rnd R stroke_pixels g =
     (let g1 = seed_state R 42 in
      case randn R (length stroke_pixels) g1 of (noise, g2) \<Rightarrow>
        (let scores = jitter_scores rnd (5 / 10) (5 / 10) 30 stroke_pixels noise;
             sorted_indices = np_argsort scores
         in (map (\<lambda>i. stroke_pixels ! i) sorted_indices, g2)))"

text \<open>
  The contour animator (\<^verbatim>\<open>sketch_animate_v2.py\<close>, line 120):
  \<^verbatim>\<open>contours = sorted(contours, key=cv2.contourArea, reverse=True)\<close>. Python's sort is
  stable, also in reverse: contours of equal area keep their order.
\<close>

definition sort_contours_by_area :: "'c opencv \<Rightarrow> 'c list \<Rightarrow> 'c list" where
  "sort_contours_by_area cv contours = sort_key (\<lambda>c. - contour_area cv c) contours"

text \<open>The drawing plan of the colour and of the highlight animator: the stroke pixels,
  found and then ordered. Only the ordered pixels are kept.\<close>

definition color_drawing_plan ::
  "rounding \<Rightarrow> 'g np_random \<Rightarrow> config \<Rightarrow> gray \<Rightarrow> 'g \<Rightarrow> (nat \<times> nat) list" where
  "color_drawing_plan rnd R cfg mask_img g =
     fst (color_sort_pixels rnd R (find_stroke_pixels cfg mask_img) g)"

definition highlight_drawing_plan ::
  "rounding \<Rightarrow> 'g np_random \<Rightarrow> config \<Rightarrow> gray \<Rightarrow> 'g \<Rightarrow> (nat \<times> nat) list" where
  "highlight_drawing_plan rnd R cfg mask_img g =
     fst (highlight_sort_pixels rnd R (find_stroke_pixels cfg mask_img) g)"

section \<open>The encoder session\<close>

text \<open>
  The exceptions the runs meet, the state of the encoder process, and the lines the
  runs' own handlers log at error level (and the cleanup line).
\<close>

datatype py_exc =
  BrokenPipeError | TimeoutExpired | ZeroDivisionError | FileNotFoundError | OSError
  | ValueError | AttributeError | ParseError | CvError

datatype proc_status = Running | Exited int

datatype log_line =
  FFmpeg_failed int
  | Animation_error py_exc
  | Failed_to_extract
  | Stroke_extraction_error py_exc
  | No_paths_found
  | No_frames_rendered
  | Pipe_broken
  | Streaming_error py_exc
  | Processing_error py_exc
  | Cleaned_up

text \<open>
  What the run cannot decide: whether \<^verbatim>\<open>subprocess.Popen\<close> starts the encoder, how many
  frame writes the encoder's input pipe takes before it breaks (\<open>None\<close>: all of them),
  with which code the encoder exits within the 60 seconds of
  \<^verbatim>\<open>ffmpeg_process.wait(timeout=60)\<close> (\<open>None\<close>: it is still running then), and whether
  the output files can be written afterwards.
\<close>

record host =
  launches :: bool
  accepts :: "nat option"
  exit_code :: "int option"
  outputs_ok :: bool

text \<open>The encoder session as the run sees it: the frames written to the input pipe so
  far, whether the pipe has been closed, and the state of the process.\<close>

record session =
  frames_in :: "frame list"
  stdin_closed :: bool
  status :: proc_status

text \<open>\<^verbatim>\<open>subprocess.Popen(ffmpeg_args, stdin=PIPE, ...)\<close>.\<close>

definition popen :: "host \<Rightarrow> py_exc + session" where
  "popen h =
     (if launches h then Inr \<lparr>frames_in = [], stdin_closed = False, status = Running\<rparr>
      else Inl FileNotFoundError)"

text \<open>\<^verbatim>\<open>ffmpeg_process.stdin.write(frame)\<close>: the frame reaches the pipe, or the pipe is
  broken and the write raises. The writes are taken unbuffered: a broken pipe shows at
  the write that meets it.\<close>

definition stdin_write :: "host \<Rightarrow> session \<Rightarrow> frame \<Rightarrow> py_exc + session" where
  "stdin_write h s fr =
     (case accepts h of
        None \<Rightarrow> Inr (s\<lparr>frames_in := frames_in s @ [fr]\<rparr>)
      | Some k \<Rightarrow>
          if length (frames_in s) < k then Inr (s\<lparr>frames_in := frames_in s @ [fr]\<rparr>)
          else Inl BrokenPipeError)"

text \<open>
  The frame loop \<^verbatim>\<open>for frame_idx in range(total_frames): ... stdin.write(...)\<close>: each
  frame is rendered and written before the next one; the loop stops at the first
  exception, of the rendering (\<open>Inl\<close> in the list) or of the write. The result is the
  session as the loop leaves it, with the exception if one was raised.
\<close>

fun write_frames :: "host \<Rightarrow> session \<Rightarrow> (py_exc + frame) list \<Rightarrow> session \<times> py_exc option" where
  "write_frames h s [] = (s, None)"
| "write_frames h s (Inl e # rest) = (s, Some e)"
| "write_frames h s (Inr fr # rest) =
     (case stdin_write h s fr of
        Inl e \<Rightarrow> (s, Some e)
      | Inr s' \<Rightarrow> write_frames h s' rest)"

text \<open>\<^verbatim>\<open>ffmpeg_process.stdin.close()\<close>.\<close>

definition stdin_close :: "session \<Rightarrow> session" where
  "stdin_close s = s\<lparr>stdin_closed := True\<rparr>"

text \<open>\<^verbatim>\<open>return_code = ffmpeg_process.wait(timeout=60)\<close>: the exit code once the process
  has exited, or \<^verbatim>\<open>subprocess.TimeoutExpired\<close>, which leaves the process as it is.\<close>

definition wait60 :: "host \<Rightarrow> session \<Rightarrow> session \<times> (py_exc + int)" where
  "wait60 h s =
     (case exit_code h of
        None \<Rightarrow> (s, Inl TimeoutExpired)
      | Some c \<Rightarrow> (s\<lparr>status := Exited c\<rparr>, Inr c))"

text \<open>
  What a run leaves behind: the value it returns, the encoder session (\<open>None\<close> when no
  encoder was started), whether the temporary directory still exists, and the log.
\<close>

record run_result =
  returned :: bool
  encoder :: "session option"
  temp_dir_exists :: bool
  logged :: "log_line list"

text \<open>
  The \<^verbatim>\<open>finally\<close> block of every animator:
  \<^verbatim>\<open>
  finally:
      if os.path.exists(self.temp_dir):
          shutil.rmtree(self.temp_dir, ignore_errors=True)
          logger.info("Cleaned up temp directory")
  \<close>
  The removal itself is taken to succeed.
\<close>

definition finally_cleanup :: "run_result \<Rightarrow> run_result" where
  "finally_cleanup r =
     (if temp_dir_exists r then r\<lparr>temp_dir_exists := False, logged := logged r @ [Cleaned_up]\<rparr> else r)"

text \<open>
  The end of a run that every animator but the trace-based one shares, after the frame
  loop (\<^verbatim>\<open>sketch_animate_v2.py\<close>, lines 207-237; \<^verbatim>\<open>sketch_animate_color.py\<close>, lines
  188-223; \<^verbatim>\<open>sketch_animate_highlight.py\<close>, lines 234-270;
  \<^verbatim>\<open>sketch_animate_whiteboard.py\<close>, lines 323-364): an exception of the loop is caught by
  \<^verbatim>\<open>except Exception\<close>, logged and answered with \<^verbatim>\<open>False\<close>; otherwise the pipe is
  closed and the run waits; the timeout is an exception like any other; a non-zero
  code is logged and answered with \<^verbatim>\<open>False\<close>; then the outputs are written, which may
  raise too. Nothing here terminates or kills the process.
\<close>

definition close_and_wait :: "host \<Rightarrow> session \<times> py_exc option \<Rightarrow> run_result" where
  "close_and_wait h looped =
     (case looped of
        (s, Some e) \<Rightarrow>
          \<lparr>returned = False, encoder = Some s, temp_dir_exists = True, logged = [Animation_error e]\<rparr>
      | (s, None) \<Rightarrow>
          (case wait60 h (stdin_close s) of
             (s', Inl e) \<Rightarrow>
               \<lparr>returned = False, encoder = Some s', temp_dir_exists = True, logged = [Animation_error e]\<rparr>
           | (s', Inr return_code) \<Rightarrow>
               if return_code \<noteq> 0 then
                 \<lparr>returned = False, encoder = Some s', temp_dir_exists = True,
                  logged = [FFmpeg_failed return_code]\<rparr>
               else if outputs_ok h then
                 \<lparr>returned = True, encoder = Some s', temp_dir_exists = True, logged = []\<rparr>
               else
                 \<lparr>returned = False, encoder = Some s', temp_dir_exists = True,
                  logged = [Animation_error OSError]\<rparr>))"

text \<open>The frames a run has written to the encoder's input pipe.\<close>

definition frames_written :: "run_result \<Rightarrow> frame list" where
  "frames_written r = (case encoder r of None \<Rightarrow> [] | Some s \<Rightarrow> frames_in s)"

text \<open>The pipe takes \<open>n\<close> frame writes.\<close>

definition pipe_takes :: "host \<Rightarrow> nat \<Rightarrow> bool" where
  "pipe_takes h n = (case accepts h of None \<Rightarrow> True | Some k \<Rightarrow> n \<le> k)"

text \<open>A run that returns \<^verbatim>\<open>False\<close> before an encoder exists, with the line it logs.\<close>

definition early_return :: "log_line list \<Rightarrow> run_result" where
  "early_return ls = \<lparr>returned = False, encoder = None, temp_dir_exists = True, logged = ls\<rparr>"

text \<open>\<^verbatim>\<open>Popen\<close>, the frame loop and the end of the run. A failing \<^verbatim>\<open>Popen\<close> raises inside
  the \<^verbatim>\<open>try\<close>.\<close>

definition stream_to_encoder :: "host \<Rightarrow> (py_exc + frame) list \<Rightarrow> run_result" where
  "stream_to_encoder h frames =
     (case popen h of
        Inl e \<Rightarrow> early_return [Animation_error e]
      | Inr s \<Rightarrow> close_and_wait h (write_frames h s frames))"

section \<open>The contour animator\<close>

text \<open>
  A frame of \<^verbatim>\<open>SketchAnimatorV2.create_animation\<close> (\<^verbatim>\<open>sketch_animate_v2.py\<close>, lines
  190-202): a white canvas, the first \<^verbatim>\<open>contours_to_draw\<close> contours drawn filled and
  then stroked with thickness 2 in black, written as it is. \<^verbatim>\<open>cv2.drawContours\<close> raises
  on an index past the last contour.
\<close>

definition draw_contour_v2 :: "'c opencv \<Rightarrow> 'c \<Rightarrow> bgr image \<Rightarrow> bgr image" where
  "draw_contour_v2 cv contour canvas =
     drawContours cv (drawContours cv canvas contour (0, 0, 0) (- 1)) contour (0, 0, 0) 2"

definition v2_frame :: "rounding \<Rightarrow> 'c opencv \<Rightarrow> config \<Rightarrow> 'c list \<Rightarrow> nat \<Rightarrow> py_exc + frame" where
  "v2_frame rnd cv cfg contours frame_idx =
     (let n = contours_to_draw rnd (length contours) frame_idx (total_frames rnd cfg);
          canvas = np_full (height cfg) (width cfg) white
      in if int (length contours) < n then Inl CvError
         else Inr (tobytes (fold (draw_contour_v2 cv) (take (nat n) contours) canvas)))"

text \<open>
  What the contour animator reads from the input image: whether \<^verbatim>\<open>preprocess_image\<close>
  succeeds, and the contours \<^verbatim>\<open>cv2.findContours\<close> finds in the cleaned image (\<open>None\<close>
  when the cleaned image cannot be read).
\<close>

record 'c v2_input =
  preprocess_ok :: bool
  found_contours :: "'c list option"

text \<open>\<^verbatim>\<open>extract_contours\<close> (\<^verbatim>\<open>sketch_animate_v2.py\<close>, lines 104-123).\<close>

definition extract_contours :: "'c opencv \<Rightarrow> 'c v2_input \<Rightarrow> 'c list option" where
  "extract_contours cv inp = map_option (sort_contours_by_area cv) (found_contours inp)"

text \<open>
  \<^verbatim>\<open>SketchAnimatorV2.create_animation\<close> (\<^verbatim>\<open>sketch_animate_v2.py\<close>, lines 125-241). The
  temporary directory exists from the constructor on.
\<close>

definition create_animation :: "rounding \<Rightarrow> 'c opencv \<Rightarrow> config \<Rightarrow> 'c v2_input \<Rightarrow> host \<Rightarrow> run_result" where
  "create_animation rnd cv cfg inp h =
     finally_cleanup
       (if \<not> preprocess_ok inp then early_return []
        else case extract_contours cv inp of
          None \<Rightarrow> early_return [Failed_to_extract]
        | Some contours \<Rightarrow>
            stream_to_encoder h
              (map (v2_frame rnd cv cfg contours) [0..<nat (total_frames rnd cfg)]))"

section \<open>The colour animator\<close>






section \<open>The trace-based animator\<close>

text \<open>
  The SVG document Potrace wrote, as \<^verbatim>\<open>render_svg_frame_simple\<close> reads it: the
  \<^verbatim>\<open>viewBox\<close> attribute of the root, split at white space, each part with the value
  \<^verbatim>\<open>float()\<close> gives it (\<open>None\<close> where \<^verbatim>\<open>float()\<close> raises \<^verbatim>\<open>ValueError\<close>; the attribute
  itself is \<open>None\<close> when the root has none), and the \<^verbatim>\<open>d\<close> attribute of every path
  element (empty when the element has none).
\<close>

record svg_document =
  viewBox_parts :: "rat option list option"
  path_ds :: "string list"

text \<open>
  What the trace-based animator reads from its surroundings: whether OpenCV could be
  imported (\<^verbatim>\<open>HAS_CV2\<close>), whether the required tools are there, whether the three steps
  before the animation succeed, the parsed SVG file (or the exception of the parser),
  and the samples of \<^verbatim>\<open>cleaned.png\<close>, resized to the output size (\<open>None\<close> when the file
  is missing or unreadable).
\<close>

record trace_input =
  has_cv2 :: bool
  tools_present :: bool
  preprocessed :: bool
  converted_to_pbm :: bool
  potrace_ran :: bool
  svg_file :: "py_exc + svg_document"
  cleaned_png :: "(nat \<Rightarrow> nat \<Rightarrow> byte) option"

text \<open>
  The attributes \<^verbatim>\<open>render_svg_frame_simple\<close> caches on the animator: each is absent
  (\<^verbatim>\<open>hasattr\<close> is false) until it is assigned.
\<close>

record animator =
  svg_paths_cache :: "string list option"
  viewbox_scale_x :: "rat option"
  viewbox_scale_y :: "rat option"
  total_svg_paths :: "nat option"
  full_image_cache :: "bgr image option"

definition fresh_animator :: animator where
  "fresh_animator =
     \<lparr>svg_paths_cache = None, viewbox_scale_x = None, viewbox_scale_y = None,
      total_svg_paths = None, full_image_cache = None\<rparr>"

text \<open>
  The first block of the \<^verbatim>\<open>try\<close> (\<^verbatim>\<open>sketch_animate.py\<close>, lines 483-513), run when
  \<^verbatim>\<open>_svg_paths_cache\<close> is absent: parse the file, read the view box, cache the paths
  that have a \<^verbatim>\<open>d\<close>, then the two scales and the number of paths. An exception leaves
  the attributes assigned before it. The result is the animator and the exception, if
  one was raised.
\<close>

definition cache_svg_paths :: "trace_input \<Rightarrow> nat \<Rightarrow> nat \<Rightarrow> animator \<Rightarrow> animator \<times> py_exc option" where
  "cache_svg_paths inp width' height' a =
     (case svg_paths_cache a of
        Some cached \<Rightarrow> (a, None)
      | None \<Rightarrow>
          (case svg_file inp of
             Inl e \<Rightarrow> (a, Some e)
           | Inr doc \<Rightarrow>
               (let vb_parts = (case viewBox_parts doc of
                                  None \<Rightarrow> [Some 0, Some 0, Some (of_nat width'), Some (of_nat height')]
                                | Some parts \<Rightarrow> parts)
                in case (if 3 \<le> length vb_parts then vb_parts ! 2 else Some (of_nat width')) of
                     None \<Rightarrow> (a, Some ValueError)
                   | Some vb_width \<Rightarrow>
                       (case (if 4 \<le> length vb_parts then vb_parts ! 3 else Some (of_nat height')) of
                          None \<Rightarrow> (a, Some ValueError)
                        | Some vb_height \<Rightarrow>
                            (let cache = filter (\<lambda>path_d. path_d \<noteq> []) (path_ds doc);
                                 a1 = a\<lparr>svg_paths_cache := Some cache\<rparr>
                             in if vb_width = 0 then (a1, Some ZeroDivisionError)
                                else
                                  (let a2 = a1\<lparr>viewbox_scale_x := Some (of_nat width' / vb_width)\<rparr>
                                   in if vb_height = 0 then (a2, Some ZeroDivisionError)
                                      else
                                        (a2\<lparr>viewbox_scale_y := Some (of_nat height' / vb_height),
                                            total_svg_paths := Some (length cache)\<rparr>, None)))))))"

text \<open>
  The fallback image (lines 547-553), loaded when \<^verbatim>\<open>_full_image_cache\<close> is absent and
  \<^verbatim>\<open>cleaned.png\<close> can be read; \<^verbatim>\<open>cv2.resize\<close> raises on an empty size.
\<close>

definition cache_full_image :: "trace_input \<Rightarrow> nat \<Rightarrow> nat \<Rightarrow> animator \<Rightarrow> animator \<times> py_exc option" where
  "cache_full_image inp width' height' a =
     (case full_image_cache a of
        Some cached \<Rightarrow> (a, None)
      | None \<Rightarrow>
          (case cleaned_png inp of
             None \<Rightarrow> (a, None)
           | Some samples \<Rightarrow>
               if width' = 0 \<or> height' = 0 then (a, Some CvError)
               else (a\<lparr>full_image_cache :=
                         Some (cvtColor_GRAY2BGR \<lparr>im_h = height', im_w = width', im_px = samples\<rparr>)\<rparr>,
                     None)))"

text \<open>
  The diagonal reveal (lines 557-575): the pixels with
  \<^verbatim>\<open>((x / width) + (y / height)) / 2 <= reveal_ratio\<close> take the cached image, the others
  stay white.
\<close>

definition reveal_diagonal :: "rounding \<Rightarrow> rat \<Rightarrow> nat \<Rightarrow> nat \<Rightarrow> bgr image \<Rightarrow> bgr image \<Rightarrow> bgr image" where
  "reveal_diagonal rnd reveal_ratio width' height' full canvas =
     canvas\<lparr>im_px := \<lambda>y x.
       if rnd (rnd (rnd (of_nat x / of_nat width') + rnd (of_nat y / of_nat height')) / 2) \<le> reveal_ratio
       then im_px full y x else white\<rparr>"

text \<open>
  The body of the \<^verbatim>\<open>try\<close> of \<^verbatim>\<open>render_svg_frame_simple\<close> (lines 482-577). The canvas is
  white from \<^verbatim>\<open>np.ones((height, width, 3)) * 255\<close>; the PIL branch replaces it by a
  white image of the same size, on which nothing is drawn, or is skipped when PIL is
  missing. Reading \<^verbatim>\<open>self._total_svg_paths\<close> raises when an earlier call cached the
  paths and failed before the count.
\<close>

definition render_body ::
  "rounding \<Rightarrow> trace_input \<Rightarrow> int \<Rightarrow> nat \<Rightarrow> nat \<Rightarrow> animator \<Rightarrow> animator \<times> (py_exc + bgr image)" where
  "render_body rnd inp paths_to_draw' width' height' a =
     (case cache_svg_paths inp width' height' a of
        (a1, Some e) \<Rightarrow> (a1, Inl e)
      | (a1, None) \<Rightarrow>
          (let canvas = np_full height' width' white
           in case total_svg_paths a1 of
                None \<Rightarrow> (a1, Inl AttributeError)
              | Some total_paths \<Rightarrow>
                  (let num_paths_to_render = min paths_to_draw' (int total_paths)
                   in if 0 < num_paths_to_render then
                        (case cache_full_image inp width' height' a1 of
                           (a2, Some e) \<Rightarrow> (a2, Inl e)
                         | (a2, None) \<Rightarrow>
                             (case full_image_cache a2 of
                                None \<Rightarrow> (a2, Inr canvas)
                              | Some full \<Rightarrow>
                                  (let reveal_ratio =
                                         rnd (of_int num_paths_to_render / of_nat (max 1 total_paths))
                                   in (a2, Inr (reveal_diagonal rnd reveal_ratio width' height' full canvas)))))
                      else (a1, Inr canvas))))"

text \<open>
  \<^verbatim>\<open>render_svg_frame_simple\<close> (lines 476-581): \<^verbatim>\<open>None\<close> without OpenCV; otherwise the
  canvas of the body, or on any exception
  \<^verbatim>\<open>np.ones((height, width, 3), dtype=np.uint8) * 255\<close>.
\<close>

definition render_svg_frame_simple ::
  "rounding \<Rightarrow> trace_input \<Rightarrow> int \<Rightarrow> nat \<Rightarrow> nat \<Rightarrow> animator \<Rightarrow> bgr image option \<times> animator" where
  "render_svg_frame_simple rnd inp paths_to_draw' width' height' a =
     (if \<not> has_cv2 inp then (None, a)
      else case render_body rnd inp paths_to_draw' width' height' a of
             (a', Inr canvas) \<Rightarrow> (Some canvas, a')
           | (a', Inl e) \<Rightarrow> (Some (np_full height' width' white), a'))"

text \<open>\<^verbatim>\<open>parse_svg_paths\<close> (lines 247-287): the path elements with a \<^verbatim>\<open>d\<close>, or the empty
  list when the parser raises.\<close>

definition parse_svg_paths :: "trace_input \<Rightarrow> string list" where
  "parse_svg_paths inp =
     (case svg_file inp of
        Inl e \<Rightarrow> []
      | Inr doc \<Rightarrow> filter (\<lambda>d_attr. d_attr \<noteq> []) (path_ds doc))"

text \<open>
  The pre-rendering loop (lines 351-368): a frame that is \<^verbatim>\<open>None\<close> is left out of
  \<^verbatim>\<open>rendered_frames\<close>. The animator's caches pass from one call to the next.
\<close>

fun render_frames ::
  "rounding \<Rightarrow> trace_input \<Rightarrow> config \<Rightarrow> nat \<Rightarrow> nat list \<Rightarrow> animator \<Rightarrow> bgr image list \<times> animator" where
  "render_frames rnd inp cfg n_paths [] a = ([], a)"
| "render_frames rnd inp cfg n_paths (frame_idx # rest) a =
     (case render_svg_frame_simple rnd inp
             (paths_to_draw rnd n_paths frame_idx (total_frames rnd cfg)) (width cfg) (height cfg) a of
        (None, a') \<Rightarrow> render_frames rnd inp cfg n_paths rest a'
      | (Some fr, a') \<Rightarrow>
          (case render_frames rnd inp cfg n_paths rest a' of
             (frs, a'') \<Rightarrow> (fr # frs, a'')))"

text \<open>
  The streaming phase (lines 393-432): the writes and the close inside their own
  \<^verbatim>\<open>try\<close>, whose handlers return \<^verbatim>\<open>False\<close>; then the wait, whose timeout is caught by
  the outer \<^verbatim>\<open>except Exception\<close>; then the return code.
\<close>

definition stream_rendered :: "host \<Rightarrow> session \<Rightarrow> frame list \<Rightarrow> run_result" where
  "stream_rendered h s frames =
     (case write_frames h s (map Inr frames) of
        (s1, Some e) \<Rightarrow>
          \<lparr>returned = False, encoder = Some s1, temp_dir_exists = True,
           logged = [if e = BrokenPipeError then Pipe_broken else Streaming_error e]\<rparr>
      | (s1, None) \<Rightarrow>
          (case wait60 h (stdin_close s1) of
             (s2, Inl e) \<Rightarrow>
               \<lparr>returned = False, encoder = Some s2, temp_dir_exists = True, logged = [Animation_error e]\<rparr>
           | (s2, Inr return_code) \<Rightarrow>
               if return_code \<noteq> 0 then
                 \<lparr>returned = False, encoder = Some s2, temp_dir_exists = True,
                  logged = [FFmpeg_failed return_code]\<rparr>
               else \<lparr>returned = True, encoder = Some s2, temp_dir_exists = True, logged = []\<rparr>))"

text \<open>\<^verbatim>\<open>create_animation_frames_stream\<close> (lines 289-432). The encoder is started before the
  frames are rendered; when no frame was rendered the function returns with the
  encoder running and its pipe open.\<close>

definition create_animation_frames_stream ::
  "rounding \<Rightarrow> config \<Rightarrow> trace_input \<Rightarrow> host \<Rightarrow> animator \<Rightarrow> run_result" where
  "create_animation_frames_stream rnd cfg inp h a =
     (let paths = parse_svg_paths inp
      in if paths = [] then early_return [No_paths_found]
         else case popen h of
                Inl e \<Rightarrow> early_return [Animation_error e]
              | Inr s \<Rightarrow>
                  (let rendered_frames =
                         fst (render_frames rnd inp cfg (length paths) [0..<nat (total_frames rnd cfg)] a)
                   in if rendered_frames = [] then
                        \<lparr>returned = False, encoder = Some s, temp_dir_exists = True,
                         logged = [No_frames_rendered]\<rparr>
                      else stream_rendered h s (map tobytes rendered_frames)))"

text \<open>
  \<^verbatim>\<open>SketchAnimator.process\<close> (lines 592-650): the temporary directory is made first;
  each step that fails returns \<^verbatim>\<open>False\<close>; copying the outputs may raise, which the
  \<^verbatim>\<open>except Exception\<close> answers with \<^verbatim>\<open>False\<close>; the \<^verbatim>\<open>finally\<close> block removes the
  directory.
\<close>

definition process :: "rounding \<Rightarrow> config \<Rightarrow> trace_input \<Rightarrow> host \<Rightarrow> run_result" where
  "process rnd cfg inp h =
     finally_cleanup
       (if \<not> tools_present inp then early_return []
        else if \<not> preprocessed inp then early_return []
        else if \<not> converted_to_pbm inp then early_return []
        else if \<not> potrace_ran inp then early_return []
        else (let r = create_animation_frames_stream rnd cfg inp h fresh_animator
              in if \<not> returned r then r
                 else if outputs_ok h then r
                 else r\<lparr>returned := False, logged := logged r @ [Processing_error OSError]\<rparr>))"

section \<open>The whiteboard animator\<close>

text \<open>
  What the whiteboard animator reads from the input image: the samples of the resized
  and enhanced image (\<open>None\<close> when \<^verbatim>\<open>cv2.imread\<close> returns \<^verbatim>\<open>None\<close>), the contours
  \<^verbatim>\<open>cv2.findContours\<close> finds in the cleaned edge image, and those it finds in the cleaned
  binary mask.
\<close>

record 'c whiteboard_input =
  enhanced :: "(nat \<Rightarrow> nat \<Rightarrow> bgr) option"
  edge_contours :: "'c list"
  color_contours :: "'c list"

text \<open>
  \<^verbatim>\<open>contour_top\<close> (\<^verbatim>\<open>sketch_animate_whiteboard.py\<close>, lines 90-96):
  \<^verbatim>\<open>M['m01'] / M['m00']\<close>, or 0 when \<^verbatim>\<open>M['m00']\<close> is 0.
\<close>

definition contour_top :: "rounding \<Rightarrow> 'c opencv \<Rightarrow> 'c \<Rightarrow> rat" where
  "contour_top rnd cv cnt =
     (case contour_moments cv cnt of (m00, m10, m01) \<Rightarrow> if m00 \<noteq> 0 then rnd (m01 / m00) else 0)"

text \<open>
  The three shapes of what \<^verbatim>\<open>extract_drawing_strokes\<close> returns: the image with the
  outline paths and the colour fills, \<^verbatim>\<open>(None, None, None)\<close> when the image cannot be
  read, and \<^verbatim>\<open>(None, None)\<close> from its exception handler.
\<close>

datatype 'c strokes =
  Strokes "bgr image" "(int \<times> int) list list" "'c list"
  | Three_None
  | Two_None

text \<open>
  \<^verbatim>\<open>extract_drawing_strokes\<close> (lines 49-143). Both contour lists are sorted by
  \<^verbatim>\<open>contour_top\<close> (Python's sort is stable) and filtered by area (at least 50 for the
  edges, at least 100 for the colour regions); an edge contour becomes an outline path
  when its polygon has at least three points. \<^verbatim>\<open>cv2.resize\<close> raises on an empty size,
  which the handler answers.
\<close>

definition extract_drawing_strokes ::
  "rounding \<Rightarrow> 'c opencv \<Rightarrow> config \<Rightarrow> 'c whiteboard_input \<Rightarrow> 'c strokes" where
  "extract_drawing_strokes rnd cv cfg inp =
     (case enhanced inp of
        None \<Rightarrow> Three_None
      | Some samples \<Rightarrow>
          if width cfg = 0 \<or> height cfg = 0 then Two_None
          else
            (let img_enhanced = \<lparr>im_h = height cfg, im_w = width cfg, im_px = samples\<rparr>;
                 edge_sorted = sort_key (contour_top rnd cv) (edge_contours inp);
                 edge_kept = filter (\<lambda>cnt. 50 \<le> contour_area cv cnt) edge_sorted;
                 color_sorted = sort_key (contour_top rnd cv) (color_contours inp);
                 color_kept = filter (\<lambda>cnt. 100 \<le> contour_area cv cnt) color_sorted;
                 outline_paths = filter (\<lambda>points. 3 \<le> length points) (map (approx_poly cv) edge_kept);
                 color_fills = color_kept
             in Strokes img_enhanced outline_paths color_fills))"

text \<open>
  \<^verbatim>\<open>draw_hand_cursor\<close> (lines 145-157): the shadow, then the marker, both of the pulsing
  size.
\<close>

definition draw_hand_cursor :: "'c opencv \<Rightarrow> bgr image \<Rightarrow> int \<Rightarrow> int \<Rightarrow> nat \<Rightarrow> bgr image" where
  "draw_hand_cursor cv canvas x y frame_idx =
     (let size' = hand_cursor_size frame_idx;
          shadowed = keeping_shape (circle_aa cv (x + 2, y + 2) size' (180, 180, 180)) canvas
      in keeping_shape (circle_aa cv (x, y) size' (50, 150, 255)) shadowed)"

text \<open>
  The first \<open>k\<close> segments of a stroke path, each drawn by
  \<^verbatim>\<open>cv2.line(canvas, pt1, pt2, (0, 0, 0), outline_thickness, cv2.LINE_AA)\<close> with
  \<^verbatim>\<open>outline_thickness = 3\<close>.
\<close>

definition draw_segments :: "'c opencv \<Rightarrow> (int \<times> int) list \<Rightarrow> nat \<Rightarrow> bgr image \<Rightarrow> bgr image" where
  "draw_segments cv stroke_path k canvas =
     fold (\<lambda>i. keeping_shape (line_aa cv (stroke_path ! i) (stroke_path ! (i + 1)) (0, 0, 0) 3))
       [0..<k] canvas"

text \<open>
  The loop over the outline paths of the first pass (lines 246-266), from the path it
  has reached: a path that fits below the target is drawn whole, the next one in part,
  and the loop breaks. The state is the canvas and the cursor position. Every path has
  at least three points, so \<^verbatim>\<open>stroke_path[-1]\<close> is its last point.
\<close>

fun draw_outline_strokes ::
  "'c opencv \<Rightarrow> int \<Rightarrow> (int \<times> int) list list \<Rightarrow> int \<Rightarrow> bgr image \<times> (int \<times> int)
     \<Rightarrow> bgr image \<times> (int \<times> int)" where
  "draw_outline_strokes cv target_outline_points [] drawn_points st = st"
| "draw_outline_strokes cv target_outline_points (stroke_path # rest) drawn_points st =
     (if drawn_points + int (length stroke_path) \<le> target_outline_points then
        draw_outline_strokes cv target_outline_points rest (drawn_points + int (length stroke_path))
          (draw_segments cv stroke_path (length stroke_path - 1) (fst st), last stroke_path)
      else if drawn_points < target_outline_points then
        (let points_to_draw = target_outline_points - drawn_points
         in (draw_segments cv stroke_path
               (nat (min (points_to_draw - 1) (int (length stroke_path) - 1))) (fst st),
             stroke_path ! nat (min points_to_draw (int (length stroke_path) - 1))))
      else st)"

text \<open>
  One colour fill of the second pass (lines 287-300): the pixels the filled contour
  covers take the image's colours, and the cursor moves to the contour's centre when
  \<^verbatim>\<open>M['m00']\<close> is not 0.
\<close>

definition fill_region ::
  "rounding \<Rightarrow> 'c opencv \<Rightarrow> config \<Rightarrow> bgr image \<Rightarrow> 'c \<Rightarrow> bgr image \<times> (int \<times> int)
     \<Rightarrow> bgr image \<times> (int \<times> int)" where
  "fill_region rnd cv cfg img_color contour st =
     (let mask_img = drawContours cv (np_zeros (height cfg) (width cfg)) contour 255 (- 1);
          canvas = reveal (fst st) img_color (np_where_positive mask_img)
      in case contour_moments cv contour of
           (m00, m10, m01) \<Rightarrow>
             if m00 \<noteq> 0 then (canvas, (py_int (rnd (m10 / m00)), py_int (rnd (m01 / m00))))
             else (canvas, snd st))"

text \<open>
  The lengths of the passes (lines 181-183):
  \<^verbatim>\<open>outline_frames = int(total_frames * 0.50)\<close>, \<^verbatim>\<open>color_frames = int(total_frames * 0.35)\<close>,
  \<^verbatim>\<open>hold_frames = total_frames - outline_frames - color_frames\<close>.
\<close>

definition outline_frames :: "rounding \<Rightarrow> config \<Rightarrow> int" where
  "outline_frames rnd cfg = py_int (rnd (of_int (total_frames rnd cfg) * rnd (50 / 100)))"

definition color_frames :: "rounding \<Rightarrow> config \<Rightarrow> int" where
  "color_frames rnd cfg = py_int (rnd (of_int (total_frames rnd cfg) * rnd (35 / 100)))"

definition hold_frames :: "rounding \<Rightarrow> config \<Rightarrow> int" where
  "hold_frames rnd cfg = total_frames rnd cfg - outline_frames rnd cfg - color_frames rnd cfg"

text \<open>
  The canvas of one frame (lines 235-314), or the exception the frame raises. The
  branches are the code's:
  \<^verbatim>\<open>
  if frame_idx < outline_frames and outline_paths:
      ...
  elif frame_idx >= outline_frames and color_fills:
      ...
  else:
      canvas = img_color.copy()
  \<close>
  The second branch divides by \<^verbatim>\<open>color_frames\<close>.
\<close>

definition whiteboard_canvas ::
  "rounding \<Rightarrow> 'c opencv \<Rightarrow> config \<Rightarrow> bgr image \<Rightarrow> (int \<times> int) list list \<Rightarrow> 'c list \<Rightarrow> nat
     \<Rightarrow> py_exc + bgr image" where
  "whiteboard_canvas rnd cv cfg img_color outline_paths color_fills frame_idx =
     (let total_outline_points =
            (if outline_paths \<noteq> [] then sum_list (map length outline_paths) else 1);
          total_color_fills = (if color_fills \<noteq> [] then length color_fills else 1);
          white_bg = np_full (height cfg) (width cfg) white;
          cursor = (int (width cfg) div 2, int (height cfg) div 2)
      in if int frame_idx < outline_frames rnd cfg \<and> outline_paths \<noteq> [] then
           (let outline_progress = rnd (of_nat (frame_idx + 1) / of_int (outline_frames rnd cfg));
                target_outline_points = py_int (rnd (of_nat total_outline_points * outline_progress))
            in case draw_outline_strokes cv target_outline_points outline_paths 0 (white_bg, cursor) of
                 (canvas, (cursor_x, cursor_y)) \<Rightarrow>
                   Inr (draw_hand_cursor cv canvas cursor_x cursor_y frame_idx))
         else if outline_frames rnd cfg \<le> int frame_idx \<and> color_fills \<noteq> [] then
           (let canvas =
                  fold (\<lambda>stroke_path. draw_segments cv stroke_path (length stroke_path - 1))
                    outline_paths white_bg;
                color_frame_idx = int frame_idx - outline_frames rnd cfg
            in if color_frames rnd cfg = 0 then Inl ZeroDivisionError
               else
                 (let color_progress = rnd (of_int (color_frame_idx + 1) / of_int (color_frames rnd cfg));
                      fills_to_draw = py_int (rnd (of_nat total_color_fills * color_progress))
                  in case fold (fill_region rnd cv cfg img_color) (take (nat fills_to_draw) color_fills)
                            (canvas, cursor) of
                       (filled, (cursor_x, cursor_y)) \<Rightarrow>
                         Inr (if fills_to_draw < int total_color_fills
                              then draw_hand_cursor cv filled cursor_x cursor_y frame_idx
                              else filled)))
         else Inr img_color)"

text \<open>The frame as it is written (lines 317-318):
  \<^verbatim>\<open>cv2.cvtColor(canvas, cv2.COLOR_BGR2RGB).tobytes()\<close>.\<close>

definition whiteboard_frame ::
  "rounding \<Rightarrow> 'c opencv \<Rightarrow> config \<Rightarrow> bgr image \<Rightarrow> (int \<times> int) list list \<Rightarrow> 'c list \<Rightarrow> nat
     \<Rightarrow> py_exc + frame" where
  "whiteboard_frame rnd cv cfg img_color outline_paths color_fills frame_idx =
     (case whiteboard_canvas rnd cv cfg img_color outline_paths color_fills frame_idx of
        Inl e \<Rightarrow> Inl e
      | Inr canvas \<Rightarrow> Inr (tobytes (cvtColor_BGR2RGB canvas)))"

text \<open>
  \<^verbatim>\<open>WhiteboardAnimator.create_whiteboard_animation\<close> (lines 159-368). Unpacking the pair
  \<^verbatim>\<open>(None, None)\<close> into three names raises \<^verbatim>\<open>ValueError\<close> inside the \<^verbatim>\<open>try\<close>. The guard of
  line 170 returns \<^verbatim>\<open>False\<close> before the encoder is started:
  \<^verbatim>\<open>
  if img_color is None or (not outline_paths and not color_fills):
      logger.error("Failed to extract strokes")
      return False
  \<close>
\<close>

definition create_whiteboard_animation ::
  "rounding \<Rightarrow> 'c opencv \<Rightarrow> config \<Rightarrow> 'c whiteboard_input \<Rightarrow> host \<Rightarrow> run_result" where
  "create_whiteboard_animation rnd cv cfg inp h =
     finally_cleanup
       (case extract_drawing_strokes rnd cv cfg inp of
          Two_None \<Rightarrow> early_return [Stroke_extraction_error CvError, Animation_error ValueError]
        | Three_None \<Rightarrow> early_return [Failed_to_extract]
        | Strokes img_color outline_paths color_fills \<Rightarrow>
            if outline_paths = [] \<and> color_fills = [] then early_return [Failed_to_extract]
            else stream_to_encoder h
                   (map (whiteboard_frame rnd cv cfg img_color outline_paths color_fills)
                      [0..<nat (total_frames rnd cfg)]))"

section \<open>Concrete runs\<close>

text \<open>
  Hosts: one on which everything succeeds, one whose encoder never exits (within the
  60 seconds of the wait), and one whose encoder exits with code 1.
\<close>

definition host_ok :: host where
  "host_ok = \<lparr>launches = True, accepts = None, exit_code = Some 0, outputs_ok = True\<rparr>"

definition host_never_exits :: host where
  "host_never_exits = \<lparr>launches = True, accepts = None, exit_code = None, outputs_ok = True\<rparr>"

definition host_exits_1 :: host where
  "host_exits_1 = \<lparr>launches = True, accepts = None, exit_code = Some 1, outputs_ok = True\<rparr>"

text \<open>Three frames of 2 \<times> 1 pixels, and twenty frames of 16 \<times> 16 pixels.\<close>

definition small_config :: config where
  "small_config = \<lparr>width = 2, height = 1, fps = 3, duration = 1\<rparr>"

definition square_config :: config where
  "square_config = \<lparr>width = 16, height = 16, fps = 10, duration = 2\<rparr>"

text \<open>
  An image of 16 \<times> 16 pixels: a dark square, rows and columns 2 to 13, on a light grey
  ground. OpenCV on it, with one contour, the outline of the square: the contour drawn
  filled covers the square and drawn stroked covers nothing more; its area is 121 and
  its centre \<open>(7.5, 7.5)\<close>; its polygon has the four corners. A line colours the pixels
  within one pixel of the box spanned by its end points (for the horizontal and vertical
  lines here, a line of thickness 3), a circle the pixels within its radius.
\<close>

definition in_square :: "nat \<Rightarrow> nat \<Rightarrow> bool" where
  "in_square y x = (2 \<le> y \<and> y < 14 \<and> 2 \<le> x \<and> x < 14)"

definition square_samples :: "nat \<Rightarrow> nat \<Rightarrow> bgr" where
  "square_samples y x = (if in_square y x then (40, 40, 40) else (200, 200, 200))"

definition square_image :: "bgr image" where
  "square_image = \<lparr>im_h = 16, im_w = 16, im_px = square_samples\<rparr>"

definition box_line :: "int \<times> int \<Rightarrow> int \<times> int \<Rightarrow> bgr \<Rightarrow> int \<Rightarrow> bgr image \<Rightarrow> bgr image" where
  "box_line pt1 pt2 color thickness canvas =
     canvas\<lparr>im_px := \<lambda>y x.
       if min (fst pt1) (fst pt2) - 1 \<le> int x \<and> int x \<le> max (fst pt1) (fst pt2) + 1
          \<and> min (snd pt1) (snd pt2) - 1 \<le> int y \<and> int y \<le> max (snd pt1) (snd pt2) + 1
       then color else im_px canvas y x\<rparr>"

definition disc :: "int \<times> int \<Rightarrow> int \<Rightarrow> bgr \<Rightarrow> bgr image \<Rightarrow> bgr image" where
  "disc centre radius color canvas =
     canvas\<lparr>im_px := \<lambda>y x.
       if (int x - fst centre)\<^sup>2 + (int y - snd centre)\<^sup>2 \<le> radius\<^sup>2
       then color else im_px canvas y x\<rparr>"

definition square_cv :: "unit opencv" where
  "square_cv =
     \<lparr>contour_covers = (\<lambda>c thickness y x. in_square y x),
      contour_moments = (\<lambda>c. (121, 1815 / 2, 1815 / 2)),
      contour_area = (\<lambda>c. 121),
      approx_poly = (\<lambda>c. [(2, 2), (13, 2), (13, 13), (2, 13)]),
      line_aa = box_line,
      circle_aa = disc,
      gaussian_blur3 = (\<lambda>canvas. canvas)\<rparr>"

text \<open>What the animators read from the image of the square.\<close>

definition square_v2_input :: "unit v2_input" where
  "square_v2_input = \<lparr>preprocess_ok = True, found_contours = Some [()]\<rparr>"


definition square_whiteboard_input :: "unit whiteboard_input" where
  "square_whiteboard_input =
     \<lparr>enhanced = Some square_samples, edge_contours = [()], color_contours = [()]\<rparr>"

text \<open>An image in which no contour is found.\<close>

definition blank_whiteboard_input :: "unit whiteboard_input" where
  "blank_whiteboard_input =
     \<lparr>enhanced = Some (\<lambda>y x. white), edge_contours = [], color_contours = []\<rparr>"

text \<open>
  The trace-based animator on an SVG file with one path: once with the view box of
  the output size, once with a view box of width 0.
\<close>

definition traced_input :: trace_input where
  "traced_input =
     \<lparr>has_cv2 = True, tools_present = True, preprocessed = True, converted_to_pbm = True,
      potrace_ran = True,
      svg_file = Inr \<lparr>viewBox_parts = Some [Some 0, Some 0, Some 2, Some 1], path_ds = [''M0 0L1 0'']\<rparr>,
      cleaned_png = Some (\<lambda>y x. 0)\<rparr>"

definition zero_viewbox_input :: trace_input where
  "zero_viewbox_input =
     \<lparr>has_cv2 = True, tools_present = True, preprocessed = True, converted_to_pbm = True,
      potrace_ran = True,
      svg_file = Inr \<lparr>viewBox_parts = Some [Some 0, Some 0, Some 0, Some 1], path_ds = [''M0 0L1 0'']\<rparr>,
      cleaned_png = Some (\<lambda>y x. 0)\<rparr>"

text \<open>A random generator for the examples: a counter, whose draws are its states.\<close>

definition counting_random :: "nat np_random" where
  "counting_random = \<lparr>seed_state = (\<lambda>seed. seed), next_gauss = (\<lambda>g. (of_nat g, Suc g))\<rparr>"

text \<open>Exact arithmetic: a rounding that changes nothing.\<close>

definition exact :: rounding where
  "exact q = q"

section \<open>Double precision\<close>








chapter \<open>Properties\<close>

section \<open>Properties of the reveal progress\<close>

lemma py_int_mono: "x \<le> y \<Longrightarrow> py_int x \<le> py_int y"
proof -
  assume xy: "x \<le> y"
  show ?thesis
  proof (cases "0 \<le> x")
    case True
    with xy have "0 \<le> y" by simp
    with True xy show ?thesis by (simp add: py_int_def floor_mono)
  next
    case False
    show ?thesis
    proof (cases "0 \<le> y")
      case True
      from False have "\<lceil>x\<rceil> \<le> 0" by (simp add: ceiling_le_zero)
      moreover from True have "0 \<le> \<lfloor>y\<rfloor>" by simp
      ultimately have "\<lceil>x\<rceil> \<le> \<lfloor>y\<rfloor>" by linarith
      then show ?thesis using False True by (simp add: py_int_def)
    next
      case y: False
      with False xy show ?thesis by (simp add: py_int_def ceiling_mono)
    qed
  qed
qed

lemma progress_mono:
  assumes "mono rnd" and "i \<le> j" and "0 < N"
  shows "progress rnd i N \<le> progress rnd j N"
proof -
  have "(of_nat (i + 1) :: rat) \<le> of_nat (j + 1)"
    using assms(2) by simp
  then have "(of_nat (i + 1) :: rat) / of_int N \<le> of_nat (j + 1) / of_int N"
    using assms(3) by (simp add: divide_right_mono)
  then show ?thesis
    unfolding progress_def using assms(1) by (rule monoD [rotated])
qed

lemma scaled_progress_mono:
  assumes "mono rnd" and "i \<le> j" and "0 < N"
  shows "py_int (rnd (of_nat n * progress rnd i N))
       \<le> py_int (rnd (of_nat n * progress rnd j N))"
proof -
  have "(of_nat n :: rat) * progress rnd i N \<le> of_nat n * progress rnd j N"
    using progress_mono [OF assms] by (simp add: mult_left_mono)
  then have "rnd (of_nat n * progress rnd i N) \<le> rnd (of_nat n * progress rnd j N)"
    using assms(1) by (rule monoD [rotated])
  then show ?thesis by (rule py_int_mono)
qed

text \<open>
  Claim C2. For a fixed number of extracted primitives, the number revealed at frame
  index \<open>i\<close> never decreases as \<open>i\<close> grows over \<open>0..N-1\<close>, in the colour animator
  (pixels) and in the contour animator (contours) alike, whatever monotone rounding the
  floating-point unit applies; and once the count has grown past its value at frame
  \<open>i\<close>, no later frame \<open>k\<close> shows that value again.
\<close>

theorem reveal_count_monotone:
  assumes "mono rnd" and "i \<le> j" and "j \<le> k" and "int k < N"
  shows "pixels_to_draw rnd total_pixels i N \<le> pixels_to_draw rnd total_pixels j N
       \<and> contours_to_draw rnd n_contours i N \<le> contours_to_draw rnd n_contours j N
       \<and> (pixels_to_draw rnd total_pixels i N < pixels_to_draw rnd total_pixels j N
            \<longrightarrow> pixels_to_draw rnd total_pixels k N \<noteq> pixels_to_draw rnd total_pixels i N)
       \<and> (contours_to_draw rnd n_contours i N < contours_to_draw rnd n_contours j N
            \<longrightarrow> contours_to_draw rnd n_contours k N \<noteq> contours_to_draw rnd n_contours i N)"
proof -
  from assms(4) have pos: "0 < N" by linarith
  have pij: "pixels_to_draw rnd total_pixels i N \<le> pixels_to_draw rnd total_pixels j N"
    unfolding pixels_to_draw_def by (rule scaled_progress_mono [OF assms(1) assms(2) pos])
  have pjk: "pixels_to_draw rnd total_pixels j N \<le> pixels_to_draw rnd total_pixels k N"
    unfolding pixels_to_draw_def by (rule scaled_progress_mono [OF assms(1) assms(3) pos])
  have cij: "contours_to_draw rnd n_contours i N \<le> contours_to_draw rnd n_contours j N"
    unfolding contours_to_draw_def by (rule scaled_progress_mono [OF assms(1) assms(2) pos])
  have cjk: "contours_to_draw rnd n_contours j N \<le> contours_to_draw rnd n_contours k N"
    unfolding contours_to_draw_def by (rule scaled_progress_mono [OF assms(1) assms(3) pos])
  from pij pjk cij cjk show ?thesis by linarith
qed

theorem reveal_count_monotone_witness:
  "mono (\<lambda>q::rat. q)
   \<and> pixels_to_draw (\<lambda>q. q) 10 0 3 = 3 \<and> pixels_to_draw (\<lambda>q. q) 10 1 3 = 6
   \<and> pixels_to_draw (\<lambda>q. q) 10 2 3 = 10
   \<and> pixels_to_draw (\<lambda>q. q) 10 0 3 \<le> pixels_to_draw (\<lambda>q. q) 10 1 3
   \<and> contours_to_draw (\<lambda>q. q) 10 0 3 \<le> contours_to_draw (\<lambda>q. q) 10 1 3
   \<and> pixels_to_draw (\<lambda>q. q) 10 2 3 \<noteq> pixels_to_draw (\<lambda>q. q) 10 0 3
   \<and> contours_to_draw (\<lambda>q. q) 10 2 3 \<noteq> contours_to_draw (\<lambda>q. q) 10 0 3"
proof -
  have m: "mono (\<lambda>q::rat. q)" by (simp add: mono_def)
  have v0: "pixels_to_draw (\<lambda>q. q) 10 0 3 = 3"
    by (simp add: pixels_to_draw_def progress_def py_int_def) linarith
  have v1: "pixels_to_draw (\<lambda>q. q) 10 1 3 = 6"
    by (simp add: pixels_to_draw_def progress_def py_int_def) linarith
  have v2: "pixels_to_draw (\<lambda>q. q) 10 2 3 = 10"
    by (simp add: pixels_to_draw_def progress_def py_int_def)
  have c0: "contours_to_draw (\<lambda>q. q) 10 0 3 = 3"
    by (simp add: contours_to_draw_def progress_def py_int_def) linarith
  have c1: "contours_to_draw (\<lambda>q. q) 10 1 3 = 6"
    by (simp add: contours_to_draw_def progress_def py_int_def) linarith
  from reveal_count_monotone [OF m, of 0 1 2 3 10 10] v0 v1 v2 c0 c1 m
  show ?thesis by simp
qed

section \<open>Properties of the cursor overlays\<close>

lemma py_int_nonneg: "0 \<le> q \<Longrightarrow> py_int q = \<lfloor>q\<rfloor>"
  by (simp add: py_int_def)

lemma highlight_pulse_bounds: "0.6 \<le> highlight_pulse i \<and> highlight_pulse i \<le> 1"
proof -
  have "- 1 \<le> sin (real i * 0.3)" "sin (real i * 0.3) \<le> 1" by simp_all
  then show ?thesis unfolding highlight_pulse_def by linarith
qed

lemma hand_cursor_pulse_bounds: "0.7 \<le> hand_cursor_pulse i \<and> hand_cursor_pulse i \<le> 1"
proof -
  define s where "s = sin (real i * 0.2)"
  have "- 1 \<le> s" "s \<le> 1" by (simp_all add: s_def)
  moreover have "0.85 + 0.15 * s = 17 / 20 + 3 / 20 * s"
    by (simp add: power2_eq_square)
  ultimately have "0.7 \<le> 0.85 + 0.15 * s \<and> 0.85 + 0.15 * s \<le> 1" by simp
  then show ?thesis unfolding hand_cursor_pulse_def s_def .
qed

text \<open>
  Claim C8, as the code has it. The cursor of each variant is a function of the frame
  index alone, but the two variants that draw one use different constants, and both
  truncate to an integer: the highlight cursor has radius
  \<open>int(25 * (0.8 + 0.2 * sin(0.3 * i)))\<close>, between 15 and 25, and the whiteboard cursor
  has size \<open>int(20 * (0.85 + 0.15 * sin(0.2 * i)))\<close>, between 14 and 20.
\<close>

theorem cursor_size_formula:
  "cursor_radius i = \<lfloor>25 * (0.8 + 0.2 * sin (real i * 0.3))\<rfloor>
   \<and> 15 \<le> cursor_radius i \<and> cursor_radius i \<le> 25
   \<and> hand_cursor_size i = \<lfloor>20 * (0.85 + 0.15 * sin (real i * 0.2))\<rfloor>
   \<and> 14 \<le> hand_cursor_size i \<and> hand_cursor_size i \<le> 20"
proof -
  from highlight_pulse_bounds [of i]
  have h: "15 \<le> 25 * highlight_pulse i" "25 * highlight_pulse i \<le> 25" by linarith+
  from hand_cursor_pulse_bounds [of i]
  have w: "14 \<le> 20 * hand_cursor_pulse i" "20 * hand_cursor_pulse i \<le> 20" by linarith+
  have hr: "cursor_radius i = \<lfloor>25 * highlight_pulse i\<rfloor>"
    unfolding cursor_radius_def using h(1) by (intro py_int_nonneg) linarith
  have wr: "hand_cursor_size i = \<lfloor>20 * hand_cursor_pulse i\<rfloor>"
    unfolding hand_cursor_size_def using w(1) by (intro py_int_nonneg) linarith
  have "15 \<le> \<lfloor>25 * highlight_pulse i\<rfloor>" using h(1) by (simp add: le_floor_iff)
  moreover have "\<lfloor>25 * highlight_pulse i\<rfloor> \<le> 25" using h(2) by (simp add: floor_le_iff)
  moreover have "14 \<le> \<lfloor>20 * hand_cursor_pulse i\<rfloor>" using w(1) by (simp add: le_floor_iff)
  moreover have "\<lfloor>20 * hand_cursor_pulse i\<rfloor> \<le> 20" using w(2) by (simp add: floor_le_iff)
  ultimately show ?thesis using hr wr
    by (simp add: highlight_pulse_def hand_cursor_pulse_def)
qed

text \<open>
  The claim as stated fails on the whiteboard cursor: at frame 0 its size is 17, not
  \<open>20 * (0.8 + 0.2 * sin 0) = 16\<close>.
\<close>

theorem hand_cursor_counterexample:
  "hand_cursor_size 0 = 17
   \<and> real_of_int (hand_cursor_size 0) \<noteq> 20 * (0.8 + 0.2 * sin (real 0 * 0.2))"
  by (simp add: hand_cursor_size_def hand_cursor_pulse_def py_int_def)

section \<open>The skeletonization loop\<close>

lemma set_coords: "set (coords h w) = {(y, x). y < h \<and> x < w}"
  by (auto simp: coords_def)

lemma set_window3: "(y', x') \<in> set (window3 h w y x) \<Longrightarrow> y' < h \<and> x' < w"
  by (auto simp: window3_def)

lemma fold_min_255:
  "(\<And>p. p \<in> set ps \<Longrightarrow> f p = (255::byte)) \<Longrightarrow> fold (\<lambda>p m. min (f p) m) ps 255 = 255"
  by (induction ps) auto

lemma all_foreground_iff:
  "all_foreground a \<longleftrightarrow> (\<forall>y<im_h a. \<forall>x<im_w a. im_px a y x = 255)"
  by (auto simp: all_foreground_def list_all_iff set_coords)

lemma erode_shape [simp]: "im_h (erode a) = im_h a" "im_w (erode a) = im_w a"
  by (simp_all add: erode_def)

text \<open>Eroding an image without a background pixel changes nothing: the border does not
  count as background.\<close>

lemma erode_all_foreground: "all_foreground a \<Longrightarrow> all_foreground (erode a)"
proof -
  assume fg: "all_foreground a"
  { fix y x assume "y < im_h a" "x < im_w a"
    have "fold (\<lambda>p m. min ((\<lambda>(y', x'). im_px a y' x') p) m) (window3 (im_h a) (im_w a) y x) 255 = 255"
      using fg by (intro fold_min_255) (auto simp: all_foreground_iff dest: set_window3)
    then have "im_px (erode a) y x = 255"
      by (simp add: erode_def case_prod_unfold) }
  then show ?thesis by (simp add: all_foreground_iff)
qed

lemma countNonZero_foreground:
  assumes "all_foreground a" "0 < im_h a" "0 < im_w a"
  shows "countNonZero a \<noteq> 0"
proof -
  have "(0, 0) \<in> set (coords (im_h a) (im_w a))" using assms by (simp add: set_coords)
  moreover have "im_px a 0 0 \<noteq> 0" using assms by (simp add: all_foreground_iff)
  ultimately have "filter (\<lambda>(y, x). im_px a y x \<noteq> 0) (coords (im_h a) (im_w a)) \<noteq> []"
    by (auto simp: filter_empty_conv)
  then show ?thesis by (simp add: countNonZero_def)
qed

lemma skeleton_loop_returns_not_full:
  assumes "skeleton_loop binary skeleton = Some r"
  shows "0 < im_h binary \<and> 0 < im_w binary \<longrightarrow> \<not> all_foreground binary"
proof (rule skeleton_loop.raw_induct
    [where P = "\<lambda>b s r. 0 < im_h b \<and> 0 < im_w b \<longrightarrow> \<not> all_foreground b", OF _ assms])
  fix f :: "gray \<Rightarrow> gray \<Rightarrow> gray option" and b s y
  assume IH: "\<And>b' s' y'. f b' s' = Some y' \<Longrightarrow> 0 < im_h b' \<and> 0 < im_w b' \<longrightarrow> \<not> all_foreground b'"
    and body: "(let opened = morph_open b; temp = subtract b opened; eroded = erode b;
                   skeleton' = bitwise_or s temp
               in if countNonZero eroded = 0 then Some skeleton' else f eroded skeleton') = Some y"
  show "0 < im_h b \<and> 0 < im_w b \<longrightarrow> \<not> all_foreground b"
  proof (intro impI notI)
    assume pos: "0 < im_h b \<and> 0 < im_w b" and fg: "all_foreground b"
    from fg have fge: "all_foreground (erode b)" by (rule erode_all_foreground)
    then have "countNonZero (erode b) \<noteq> 0"
      using pos by (intro countNonZero_foreground) simp_all
    with body have "f (erode b) (bitwise_or s (subtract b (morph_open b))) = Some y"
      by (simp add: Let_def)
    from IH [OF this] pos fge show False by simp
  qed
qed

lemma skeleton_loop_diverges:
  assumes "all_foreground binary" "0 < im_h binary" "0 < im_w binary"
  shows "skeleton_loop binary skeleton = None"
proof (cases "skeleton_loop binary skeleton")
  case None
  then show ?thesis .
next
  case (Some r)
  from skeleton_loop_returns_not_full [OF this] assms show ?thesis by simp
qed

text \<open>
  Claim C9 fails on the code. The thresholded image of an all-black input is foreground
  everywhere; the erosion never removes a pixel of it, the count of non-zero pixels
  never reaches 0, and the loop does not return: on the 1\<times>1 and on the 64\<times>64
  all-foreground image the skeletonization has no result.
\<close>

theorem skeletonize_all_foreground_diverges:
  "skeletonize (np_full 1 1 255) = None \<and> skeletonize (np_full 64 64 255) = None"
proof -
  have "all_foreground (np_full h w 255)" for h w
    by (simp add: all_foreground_iff np_full_def)
  then show ?thesis
    unfolding skeletonize_def by (simp add: skeleton_loop_diverges np_full_def)
qed

section \<open>The order of the drawing plan\<close>

lemma length_randn: "randn R n g = (rs, g') \<Longrightarrow> length rs = n"
  by (induction n arbitrary: g rs g') (auto split: prod.splits)

lemma mset_map_nth_perm:
  assumes "mset idx = mset [0..<length xs]"
  shows "mset (map (\<lambda>i. xs ! i) idx) = mset xs"
proof -
  have "mset (map (\<lambda>i. xs ! i) idx) = image_mset (\<lambda>i. xs ! i) (mset idx)"
    by (simp only: mset_map)
  also have "\<dots> = image_mset (\<lambda>i. xs ! i) (mset [0..<length xs])"
    by (simp only: assms)
  also have "\<dots> = mset (map (\<lambda>i. xs ! i) [0..<length xs])"
    by (simp only: mset_map)
  also have "\<dots> = mset xs"
    by (simp only: map_nth)
  finally show ?thesis .
qed

lemma length_jitter_scores:
  "length noise = length sp \<Longrightarrow> length (jitter_scores rnd wy wx s sp noise) = length sp"
  by (simp add: jitter_scores_def)

lemma mset_np_argsort: "mset (np_argsort scores) = mset [0..<length scores]"
  unfolding np_argsort_def by (rule mset_sort)

lemma mset_sorted_by_scores:
  assumes "randn R (length sp) g1 = (noise, g2)"
  shows "mset (map (\<lambda>i. sp ! i) (np_argsort (jitter_scores rnd wy wx s sp noise))) = mset sp"
proof -
  from assms have "length noise = length sp" by (rule length_randn)
  then have "length (jitter_scores rnd wy wx s sp noise) = length sp"
    by (rule length_jitter_scores)
  then have "mset (np_argsort (jitter_scores rnd wy wx s sp noise)) = mset [0..<length sp]"
    using mset_np_argsort [of "jitter_scores rnd wy wx s sp noise"] by simp
  then show ?thesis by (rule mset_map_nth_perm)
qed

lemma mset_color_sort_pixels: "mset (fst (color_sort_pixels rnd R sp g)) = mset sp"
proof -
  obtain noise g2 where rn: "randn R (length sp) (seed_state R 42) = (noise, g2)"
    by (cases "randn R (length sp) (seed_state R 42)")
  show ?thesis
    unfolding color_sort_pixels_def Let_def rn using mset_sorted_by_scores [OF rn] by simp
qed

lemma mset_highlight_sort_pixels: "mset (fst (highlight_sort_pixels rnd R sp g)) = mset sp"
proof -
  obtain noise g2 where rn: "randn R (length sp) (seed_state R 42) = (noise, g2)"
    by (cases "randn R (length sp) (seed_state R 42)")
  show ?thesis
    unfolding highlight_sort_pixels_def Let_def rn using mset_sorted_by_scores [OF rn] by simp
qed

text \<open>
  Claim C7. The colour and the highlight animator call \<^verbatim>\<open>np.random.seed(42)\<close> before they
  draw the jitter, so the sorted stroke pixels, and the state the global generator is
  left in, do not depend on the state \<open>g\<close> the generator is in when the run starts: two
  runs on the same stroke pixels give the same ordering, and the same drawing plan from
  the same mask. The contour animator sorts by area, with no random draw.
\<close>

theorem plan_order_deterministic:
  "color_sort_pixels rnd R stroke_pixels g = color_sort_pixels rnd R stroke_pixels g'
   \<and> highlight_sort_pixels rnd R stroke_pixels g = highlight_sort_pixels rnd R stroke_pixels g'
   \<and> color_drawing_plan rnd R cfg mask_img g = color_drawing_plan rnd R cfg mask_img g'
   \<and> highlight_drawing_plan rnd R cfg mask_img g = highlight_drawing_plan rnd R cfg mask_img g'"
  by (simp add: color_sort_pixels_def highlight_sort_pixels_def color_drawing_plan_def
      highlight_drawing_plan_def)

section \<open>The frames a run writes\<close>

lemma length_coords [simp]: "length (coords h w) = h * w"
  by (simp add: coords_def length_concat comp_def sum_list_triv)

lemma length_tobytes: "length (tobytes a) = im_h a * im_w a * 3"
proof -
  have "length (concat (map f ps)) = 3 * length ps" if "\<And>p. length (f p) = 3"
    for f :: "nat \<times> nat \<Rightarrow> byte list" and ps
    using that by (induction ps) simp_all
  from this [of "\<lambda>(y, x). case im_px a y x of (c0, c1, c2) \<Rightarrow> [c0, c1, c2]" "coords (im_h a) (im_w a)"]
  show ?thesis by (simp add: tobytes_def split: prod.splits)
qed

lemma shape_np_full [simp]: "im_h (np_full h w v) = h" "im_w (np_full h w v) = w"
  by (simp_all add: np_full_def)

lemma shape_drawContours [simp]:
  "im_h (drawContours cv a c col t) = im_h a" "im_w (drawContours cv a c col t) = im_w a"
  by (simp_all add: drawContours_def)

lemma shape_reveal [simp]: "im_h (reveal a src ps) = im_h a" "im_w (reveal a src ps) = im_w a"
  by (simp_all add: reveal_def)

lemma shape_keeping_shape [simp]:
  "im_h (keeping_shape f a) = im_h a" "im_w (keeping_shape f a) = im_w a"
  by (simp_all add: keeping_shape_def)

lemma shape_cvtColor_BGR2RGB [simp]:
  "im_h (cvtColor_BGR2RGB a) = im_h a" "im_w (cvtColor_BGR2RGB a) = im_w a"
  by (simp_all add: cvtColor_BGR2RGB_def)

lemma shape_fold_draw_contour_v2 [simp]:
  "im_h (fold (draw_contour_v2 cv) cs a) = im_h a" "im_w (fold (draw_contour_v2 cv) cs a) = im_w a"
  by (induction cs arbitrary: a) (simp_all add: draw_contour_v2_def)

lemma write_frames_all:
  assumes "pipe_takes h (length (frames_in s) + length fs)"
  shows "write_frames h s (map Inr fs) = (s\<lparr>frames_in := frames_in s @ fs\<rparr>, None)"
  using assms
proof (induction fs arbitrary: s)
  case Nil
  then show ?case by simp
next
  case (Cons f fs)
  from Cons.prems have w: "stdin_write h s f = Inr (s\<lparr>frames_in := frames_in s @ [f]\<rparr>)"
    by (auto simp: stdin_write_def pipe_takes_def split: option.splits)
  from Cons.prems have "pipe_takes h (length (frames_in (s\<lparr>frames_in := frames_in s @ [f]\<rparr>)) + length fs)"
    by simp
  from Cons.IH [OF this] w show ?case by simp
qed

lemma frames_written_close_and_wait:
  "frames_written (close_and_wait h (s, e)) = frames_in s"
  by (auto simp: close_and_wait_def frames_written_def wait60_def stdin_close_def
      split: option.splits sum.splits prod.splits)

lemma frames_written_finally_cleanup [simp]:
  "frames_written (finally_cleanup r) = frames_written r"
  by (simp add: finally_cleanup_def frames_written_def)

lemma frames_written_stream:
  assumes "launches h" "pipe_takes h (length fs)"
  shows "frames_written (stream_to_encoder h (map Inr fs)) = fs"
proof -
  let ?s = "\<lparr>frames_in = [], stdin_closed = False, status = Running\<rparr>"
  from assms(2) have "pipe_takes h (length (frames_in ?s) + length fs)" by simp
  from write_frames_all [OF this] assms(1) show ?thesis
    by (simp add: stream_to_encoder_def popen_def frames_written_close_and_wait)
qed


lemma py_int_of_int [simp]: "py_int (of_int n) = n"
  by (simp add: py_int_def)

lemma py_int_of_nat [simp]: "py_int (of_nat n) = int n"
  using py_int_of_int [of "int n"] by (simp del: py_int_of_int)


lemma progress_le_1:
  assumes "mono rnd" "rnd 1 = 1" "int i < N"
  shows "progress rnd i N \<le> 1"
proof -
  from assms(3) have "int (i + 1) \<le> N" by simp
  then have "(of_int (int (i + 1)) :: rat) \<le> of_int N" by (simp only: of_int_le_iff)
  then have "(of_nat (i + 1) :: rat) \<le> of_int N" by simp
  moreover from assms(3) have "(0::rat) < of_int N" by simp
  ultimately have "(of_nat (i + 1) :: rat) / of_int N \<le> 1" by (simp add: divide_le_eq)
  then have "rnd (of_nat (i + 1) / of_int N) \<le> rnd 1" using assms(1) by (rule monoD [rotated])
  then show ?thesis by (simp add: progress_def assms(2))
qed

lemma scaled_progress_le:
  assumes "mono rnd" "rnd 1 = 1" "rnd (of_nat n) = of_nat n" "int i < N"
  shows "py_int (rnd (of_nat n * progress rnd i N)) \<le> int n"
proof -
  have "(of_nat n :: rat) * progress rnd i N \<le> of_nat n * 1"
    by (rule mult_left_mono [OF progress_le_1 [OF assms(1,2,4)]]) simp
  then have "rnd (of_nat n * progress rnd i N) \<le> rnd (of_nat n)"
    using assms(1) by (simp add: monoD)
  then have "py_int (rnd (of_nat n * progress rnd i N)) \<le> py_int (rnd (of_nat n))"
    by (rule py_int_mono)
  then show ?thesis by (simp add: assms(3))
qed


lemma v2_frame_ok:
  assumes "mono rnd" "rnd 1 = 1" "rnd (of_nat (length contours)) = of_nat (length contours)"
    and "int i < total_frames rnd cfg"
  shows "\<exists>fr. v2_frame rnd cv cfg contours i = Inr fr \<and> length fr = height cfg * width cfg * 3"
proof -
  have "contours_to_draw rnd (length contours) i (total_frames rnd cfg) \<le> int (length contours)"
    unfolding contours_to_draw_def by (rule scaled_progress_le [OF assms])
  then show ?thesis
    by (simp add: v2_frame_def Let_def length_tobytes)
qed


lemma all_frames_rendered:
  assumes "\<And>i. i < n \<Longrightarrow> \<exists>fr. render i = Inr fr \<and> length fr = k"
  shows "\<exists>fs. map render [0..<n] = map Inr fs \<and> map length fs = replicate n k"
proof -
  let ?fs = "map (\<lambda>i. projr (render i)) [0..<n]"
  have r: "render i = Inr (projr (render i)) \<and> length (projr (render i)) = k" if "i < n" for i
    using assms [OF that] by auto
  have "map render [0..<n] = map Inr ?fs"
    using r by (simp add: map_eq_conv)
  moreover have "map length ?fs = map (\<lambda>i. k) [0..<n]"
    using r by (simp add: map_eq_conv)
  then have "map length ?fs = replicate n k"
    by (simp add: map_replicate_const)
  ultimately show ?thesis by blast
qed



lemma shape_reveal_diagonal [simp]:
  "im_h (reveal_diagonal rnd r w h full canvas) = im_h canvas"
  "im_w (reveal_diagonal rnd r w h full canvas) = im_w canvas"
  by (simp_all add: reveal_diagonal_def)

lemma render_body_shape:
  assumes "render_body rnd inp n w h a = (a', Inr canvas)"
  shows "im_h canvas = h \<and> im_w canvas = w"
  using assms
  by (auto simp: render_body_def Let_def split: prod.splits option.splits if_splits)

lemma render_body_raises:
  assumes "has_cv2 inp" "render_body rnd inp n w h a = (a', Inl e)"
  shows "render_svg_frame_simple rnd inp n w h a = (Some (np_full h w white), a')"
  using assms by (simp add: render_svg_frame_simple_def)

lemma render_svg_frame_simple_some:
  assumes "has_cv2 inp"
  shows "\<exists>canvas a'. render_svg_frame_simple rnd inp n w h a = (Some canvas, a')
           \<and> im_h canvas = h \<and> im_w canvas = w"
proof (cases "render_body rnd inp n w h a")
  case (Pair a' res)
  show ?thesis
  proof (cases res)
    case (Inl e)
    with Pair assms show ?thesis by (simp add: render_svg_frame_simple_def)
  next
    case (Inr canvas)
    with Pair render_body_shape [of rnd inp n w h a a' canvas] assms show ?thesis
      by (simp add: render_svg_frame_simple_def)
  qed
qed

lemma render_frames_all:
  assumes "has_cv2 inp"
  shows "\<exists>frs a'. render_frames rnd inp cfg n idxs a = (frs, a') \<and> length frs = length idxs
           \<and> list_all (\<lambda>fr. im_h fr = height cfg \<and> im_w fr = width cfg) frs"
proof (induction idxs arbitrary: a)
  case Nil
  then show ?case by simp
next
  case (Cons i idxs)
  from render_svg_frame_simple_some [OF assms]
  obtain canvas a1 where c:
    "render_svg_frame_simple rnd inp (paths_to_draw rnd n i (total_frames rnd cfg)) (width cfg) (height cfg) a
       = (Some canvas, a1)" "im_h canvas = height cfg" "im_w canvas = width cfg"
    by blast
  from Cons.IH [of a1] obtain frs a2 where r:
    "render_frames rnd inp cfg n idxs a1 = (frs, a2)" "length frs = length idxs"
    "list_all (\<lambda>fr. im_h fr = height cfg \<and> im_w fr = width cfg) frs"
    by blast
  from c r show ?case by simp
qed


lemma frames_written_updates [simp]:
  "frames_written (r\<lparr>returned := b\<rparr>) = frames_written r"
  "frames_written (r\<lparr>logged := ls\<rparr>) = frames_written r"
  by (simp_all add: frames_written_def)




section \<open>The number of frames in double precision\<close>











section \<open>Rendering a frame of the trace-based animator\<close>

lemma length_render_frames:
  assumes "has_cv2 inp"
  shows "length (fst (render_frames rnd inp cfg n idxs a)) = length idxs"
  using render_frames_all [OF assms, of rnd cfg n idxs a] by auto

text \<open>
  Claim C10. With OpenCV, \<^verbatim>\<open>render_svg_frame_simple\<close> returns a canvas of the requested
  height and width on every call; when its body raises, the canvas is the white one;
  so the pre-rendering loop keeps a frame for every frame index. Without OpenCV, and
  only then, it returns \<^verbatim>\<open>None\<close>.
\<close>

theorem render_svg_frame_simple_never_fails:
  "(has_cv2 inp \<longrightarrow>
      (\<exists>canvas a'. render_svg_frame_simple rnd inp n w h a = (Some canvas, a')
          \<and> im_h canvas = h \<and> im_w canvas = w)
      \<and> (\<forall>e a'. render_body rnd inp n w h a = (a', Inl e) \<longrightarrow>
            render_svg_frame_simple rnd inp n w h a = (Some (np_full h w white), a'))
      \<and> length (fst (render_frames rnd inp cfg k idxs a)) = length idxs)
   \<and> (fst (render_svg_frame_simple rnd inp n w h a) = None \<longleftrightarrow> \<not> has_cv2 inp)"
proof (intro conjI impI allI)
  assume "has_cv2 inp"
  then show "\<exists>canvas a'. render_svg_frame_simple rnd inp n w h a = (Some canvas, a')
      \<and> im_h canvas = h \<and> im_w canvas = w"
    by (rule render_svg_frame_simple_some)
next
  fix e a'
  assume "has_cv2 inp" "render_body rnd inp n w h a = (a', Inl e)"
  then show "render_svg_frame_simple rnd inp n w h a = (Some (np_full h w white), a')"
    by (rule render_body_raises)
next
  assume "has_cv2 inp"
  then show "length (fst (render_frames rnd inp cfg k idxs a)) = length idxs"
    by (rule length_render_frames)
next
  show "fst (render_svg_frame_simple rnd inp n w h a) = None \<longleftrightarrow> \<not> has_cv2 inp"
    using render_svg_frame_simple_some [of inp rnd n w h a]
    by (auto simp: render_svg_frame_simple_def)
qed

theorem render_svg_frame_simple_never_fails_witness:
  "has_cv2 zero_viewbox_input
   \<and> snd (render_body (\<lambda>q. q) zero_viewbox_input 1 2 1 fresh_animator) = Inl ZeroDivisionError
   \<and> fst (render_svg_frame_simple (\<lambda>q. q) zero_viewbox_input 1 2 1 fresh_animator)
       = Some (np_full 1 2 white)
   \<and> length (fst (render_frames (\<lambda>q. q) zero_viewbox_input small_config 1 [0, 1, 2] fresh_animator)) = 3"
proof -
  have cv: "has_cv2 zero_viewbox_input" by (simp add: zero_viewbox_input_def)
  have body: "render_body (\<lambda>q. q) zero_viewbox_input 1 2 1 fresh_animator
      = (fresh_animator\<lparr>svg_paths_cache := Some [''M0 0L1 0'']\<rparr>, Inl ZeroDivisionError)"
    by (simp add: render_body_def cache_svg_paths_def zero_viewbox_input_def fresh_animator_def)
  from render_svg_frame_simple_never_fails [where inp = zero_viewbox_input and rnd = "\<lambda>q. q"
      and n = 1 and w = 2 and h = 1 and a = fresh_animator and cfg = small_config and k = 1
      and idxs = "[0, 1, 2]"] cv body
  show ?thesis by simp
qed

section \<open>The end of a run\<close>

lemma write_frames_keeps:
  assumes "write_frames h s frames = (s', e)"
  shows "stdin_closed s' = stdin_closed s \<and> status s' = status s"
  using assms
proof (induction frames arbitrary: s)
  case Nil
  then show ?case by simp
next
  case (Cons fr frames)
  show ?case
  proof (cases fr)
    case (Inl x)
    with Cons.prems show ?thesis by simp
  next
    case (Inr bytes)
    show ?thesis
    proof (cases "stdin_write h s bytes")
      case (Inl x)
      with Inr Cons.prems show ?thesis by simp
    next
      case written: (Inr s1)
      then have "stdin_closed s1 = stdin_closed s \<and> status s1 = status s"
        by (auto simp: stdin_write_def split: option.splits if_splits)
      moreover from written Inr Cons.prems have "write_frames h s1 frames = (s', e)" by simp
      from Cons.IH [OF this] have "stdin_closed s' = stdin_closed s1 \<and> status s' = status s1" .
      ultimately show ?thesis by simp
    qed
  qed
qed

lemma finally_cleanup_fields [simp]:
  "temp_dir_exists (finally_cleanup r) = False"
  "encoder (finally_cleanup r) = encoder r"
  "returned (finally_cleanup r) = returned r"
  by (simp_all add: finally_cleanup_def)

lemma logged_finally_cleanup:
  "temp_dir_exists r \<Longrightarrow> logged (finally_cleanup r) = logged r @ [Cleaned_up]"
  by (simp add: finally_cleanup_def)

lemma early_return_fields [simp]:
  "encoder (early_return ls) = None" "temp_dir_exists (early_return ls)"
  "returned (early_return ls) = False" "logged (early_return ls) = ls"
  by (simp_all add: early_return_def)

text \<open>What the contour and the whiteboard animator leave when an encoder was started.\<close>

lemma stream_to_encoder_outcome:
  assumes "encoder (stream_to_encoder h frames) = Some s"
  shows "temp_dir_exists (stream_to_encoder h frames)"
    and "status s = (if stdin_closed s then (case exit_code h of None \<Rightarrow> Running | Some c \<Rightarrow> Exited c)
                     else Running)"
    and "stdin_closed s \<Longrightarrow> exit_code h = None \<Longrightarrow>
           \<not> returned (stream_to_encoder h frames)
           \<and> logged (stream_to_encoder h frames) = [Animation_error TimeoutExpired]"
    and "stdin_closed s \<Longrightarrow> exit_code h = Some c \<Longrightarrow> c \<noteq> 0 \<Longrightarrow>
           \<not> returned (stream_to_encoder h frames)
           \<and> logged (stream_to_encoder h frames) = [FFmpeg_failed c]"
proof -
  let ?s0 = "\<lparr>frames_in = [], stdin_closed = False, status = Running\<rparr>"
  from assms have l: "launches h"
    by (auto simp: stream_to_encoder_def popen_def split: if_splits)
  obtain s1 e where w: "write_frames h ?s0 frames = (s1, e)"
    by (cases "write_frames h ?s0 frames")
  from write_frames_keeps [OF w] have k: "\<not> stdin_closed s1" "status s1 = Running" by simp_all
  from l w have r: "stream_to_encoder h frames = close_and_wait h (s1, e)"
    by (simp add: stream_to_encoder_def popen_def)
  show "temp_dir_exists (stream_to_encoder h frames)"
    unfolding r by (auto simp: close_and_wait_def wait60_def split: option.splits)
  show "status s = (if stdin_closed s then (case exit_code h of None \<Rightarrow> Running | Some c \<Rightarrow> Exited c)
                    else Running)"
    using assms k unfolding r
    by (auto simp: close_and_wait_def wait60_def stdin_close_def split: option.splits if_splits)
  show "\<not> returned (stream_to_encoder h frames)
        \<and> logged (stream_to_encoder h frames) = [Animation_error TimeoutExpired]"
    if "stdin_closed s" "exit_code h = None"
    using that assms k unfolding r
    by (auto simp: close_and_wait_def wait60_def stdin_close_def split: option.splits if_splits)
  show "\<not> returned (stream_to_encoder h frames)
        \<and> logged (stream_to_encoder h frames) = [FFmpeg_failed c]"
    if "stdin_closed s" "exit_code h = Some c" "c \<noteq> 0"
    using that assms k unfolding r
    by (auto simp: close_and_wait_def wait60_def stdin_close_def split: option.splits if_splits)
qed

text \<open>The same for the streaming phase of the trace-based animator.\<close>

lemma stream_rendered_outcome:
  assumes "\<not> stdin_closed s0" "status s0 = Running" "encoder (stream_rendered h s0 fs) = Some s"
  shows "temp_dir_exists (stream_rendered h s0 fs)"
    and "status s = (if stdin_closed s then (case exit_code h of None \<Rightarrow> Running | Some c \<Rightarrow> Exited c)
                     else Running)"
    and "stdin_closed s \<Longrightarrow> exit_code h = None \<Longrightarrow>
           \<not> returned (stream_rendered h s0 fs)
           \<and> logged (stream_rendered h s0 fs) = [Animation_error TimeoutExpired]"
    and "stdin_closed s \<Longrightarrow> exit_code h = Some c \<Longrightarrow> c \<noteq> 0 \<Longrightarrow>
           \<not> returned (stream_rendered h s0 fs)
           \<and> logged (stream_rendered h s0 fs) = [FFmpeg_failed c]"
proof -
  obtain s1 e where w: "write_frames h s0 (map Inr fs) = (s1, e)"
    by (cases "write_frames h s0 (map Inr fs)")
  from write_frames_keeps [OF w] assms(1,2) have k: "\<not> stdin_closed s1" "status s1 = Running"
    by simp_all
  show "temp_dir_exists (stream_rendered h s0 fs)"
    using w by (auto simp: stream_rendered_def wait60_def split: option.splits)
  show "status s = (if stdin_closed s then (case exit_code h of None \<Rightarrow> Running | Some c \<Rightarrow> Exited c)
                    else Running)"
    using assms(3) k w
    by (auto simp: stream_rendered_def wait60_def stdin_close_def split: option.splits if_splits)
  show "\<not> returned (stream_rendered h s0 fs)
        \<and> logged (stream_rendered h s0 fs) = [Animation_error TimeoutExpired]"
    if "stdin_closed s" "exit_code h = None"
    using that assms(3) k w
    by (auto simp: stream_rendered_def wait60_def stdin_close_def split: option.splits if_splits)
  show "\<not> returned (stream_rendered h s0 fs)
        \<and> logged (stream_rendered h s0 fs) = [FFmpeg_failed c]"
    if "stdin_closed s" "exit_code h = Some c" "c \<noteq> 0"
    using that assms(3) k w
    by (auto simp: stream_rendered_def wait60_def stdin_close_def split: option.splits if_splits)
qed

lemma frames_stream_outcome:
  assumes "encoder (create_animation_frames_stream rnd cfg inp h a) = Some s"
  shows "temp_dir_exists (create_animation_frames_stream rnd cfg inp h a)"
    and "status s = (if stdin_closed s then (case exit_code h of None \<Rightarrow> Running | Some c \<Rightarrow> Exited c)
                     else Running)"
    and "stdin_closed s \<Longrightarrow> exit_code h = None \<Longrightarrow>
           \<not> returned (create_animation_frames_stream rnd cfg inp h a)
           \<and> logged (create_animation_frames_stream rnd cfg inp h a) = [Animation_error TimeoutExpired]"
    and "stdin_closed s \<Longrightarrow> exit_code h = Some c \<Longrightarrow> c \<noteq> 0 \<Longrightarrow>
           \<not> returned (create_animation_frames_stream rnd cfg inp h a)
           \<and> logged (create_animation_frames_stream rnd cfg inp h a) = [FFmpeg_failed c]"
proof -
  let ?s0 = "\<lparr>frames_in = [], stdin_closed = False, status = Running\<rparr>"
  let ?r = "create_animation_frames_stream rnd cfg inp h a"
  let ?frs = "fst (render_frames rnd inp cfg (length (parse_svg_paths inp)) [0..<nat (total_frames rnd cfg)] a)"
  from assms have p: "parse_svg_paths inp \<noteq> []" and l: "launches h"
    by (auto simp: create_animation_frames_stream_def Let_def popen_def split: if_splits)
  have "temp_dir_exists ?r
      \<and> status s = (if stdin_closed s then (case exit_code h of None \<Rightarrow> Running | Some c \<Rightarrow> Exited c)
                    else Running)
      \<and> (stdin_closed s \<longrightarrow> exit_code h = None \<longrightarrow>
           \<not> returned ?r \<and> logged ?r = [Animation_error TimeoutExpired])
      \<and> (stdin_closed s \<longrightarrow> exit_code h = Some c \<longrightarrow> c \<noteq> 0 \<longrightarrow>
           \<not> returned ?r \<and> logged ?r = [FFmpeg_failed c])"
  proof (cases "?frs = []")
    case True
    with p l have r: "?r = \<lparr>returned = False, encoder = Some ?s0, temp_dir_exists = True,
                            logged = [No_frames_rendered]\<rparr>"
      by (simp add: create_animation_frames_stream_def Let_def popen_def)
    with assms have s: "s = ?s0" by simp
    show ?thesis by (simp add: s r)
  next
    case False
    with p l have r: "?r = stream_rendered h ?s0 (map tobytes ?frs)"
      by (simp add: create_animation_frames_stream_def Let_def popen_def)
    have c: "\<not> stdin_closed ?s0" "status ?s0 = Running" by simp_all
    from assms have e: "encoder (stream_rendered h ?s0 (map tobytes ?frs)) = Some s"
      by (simp only: r)
    show ?thesis
      unfolding r
      using stream_rendered_outcome(1) [OF c e] stream_rendered_outcome(2) [OF c e]
        stream_rendered_outcome(3) [OF c e] stream_rendered_outcome(4) [OF c e, of c]
      by blast
  qed
  then show "temp_dir_exists ?r"
       "status s = (if stdin_closed s then (case exit_code h of None \<Rightarrow> Running | Some c \<Rightarrow> Exited c)
                    else Running)"
       "stdin_closed s \<Longrightarrow> exit_code h = None \<Longrightarrow>
           \<not> returned ?r \<and> logged ?r = [Animation_error TimeoutExpired]"
       "stdin_closed s \<Longrightarrow> exit_code h = Some c \<Longrightarrow> c \<noteq> 0 \<Longrightarrow>
           \<not> returned ?r \<and> logged ?r = [FFmpeg_failed c]"
    by blast+
qed

lemma mono_exact: "mono exact"
  by (simp add: mono_def exact_def)

lemma small_total_frames: "total_frames exact small_config = 3"
  by (simp add: total_frames_def total_frames_of_def small_config_def exact_def py_int_def)

lemma stream_to_encoder_reaches_wait:
  assumes "launches h" "pipe_takes h (length fs)"
  shows "\<exists>s. encoder (stream_to_encoder h (map Inr fs)) = Some s \<and> stdin_closed s"
proof -
  let ?s = "\<lparr>frames_in = [], stdin_closed = False, status = Running\<rparr>"
  from assms(2) have "pipe_takes h (length (frames_in ?s) + length fs)" by simp
  from write_frames_all [OF this] assms(1) show ?thesis
    by (simp add: stream_to_encoder_def popen_def close_and_wait_def wait60_def stdin_close_def
        split: option.splits)
qed

lemma v2_reaches_wait:
  assumes "preprocess_ok inp" "found_contours inp = Some cs" "launches h"
    and "pipe_takes h (nat (total_frames rnd cfg))"
    and "mono rnd" "rnd 1 = 1" "rnd (of_nat (length cs)) = of_nat (length cs)"
  shows "\<exists>s. encoder (create_animation rnd cv cfg inp h) = Some s \<and> stdin_closed s"
proof -
  let ?cs = "sort_contours_by_area cv cs"
  have len: "length ?cs = length cs" by (simp add: sort_contours_by_area_def)
  have "\<exists>fr. v2_frame rnd cv cfg ?cs i = Inr fr \<and> length fr = height cfg * width cfg * 3"
    if "i < nat (total_frames rnd cfg)" for i
    using that assms(5-7) by (intro v2_frame_ok) (simp_all add: len)
  from all_frames_rendered [of "nat (total_frames rnd cfg)" "v2_frame rnd cv cfg ?cs", OF this]
  obtain fs where fs: "map (v2_frame rnd cv cfg ?cs) [0..<nat (total_frames rnd cfg)] = map Inr fs"
    "map length fs = replicate (nat (total_frames rnd cfg)) (height cfg * width cfg * 3)" by blast
  from fs(2) have "length fs = nat (total_frames rnd cfg)"
    by (metis length_map length_replicate)
  with assms(4) have "pipe_takes h (length fs)" by simp
  from stream_to_encoder_reaches_wait [OF assms(3) this] fs(1) assms(1,2) show ?thesis
    by (simp add: create_animation_def extract_contours_def)
qed

lemma trace_reaches_wait:
  assumes "has_cv2 inp" "tools_present inp" "preprocessed inp" "converted_to_pbm inp" "potrace_ran inp"
    and "parse_svg_paths inp \<noteq> []" "launches h" "pipe_takes h (nat (total_frames rnd cfg))"
    and "0 < total_frames rnd cfg"
  shows "\<exists>s. encoder (process rnd cfg inp h) = Some s \<and> stdin_closed s"
proof -
  let ?n = "nat (total_frames rnd cfg)"
  let ?s = "\<lparr>frames_in = [], stdin_closed = False, status = Running\<rparr>"
  let ?r = "create_animation_frames_stream rnd cfg inp h fresh_animator"
  from render_frames_all [OF assms(1)]
  obtain frs a' where r:
    "render_frames rnd inp cfg (length (parse_svg_paths inp)) [0..<?n] fresh_animator = (frs, a')"
    "length frs = length [0..<?n]"
    by blast
  from r(2) assms(9) have ne: "frs \<noteq> []" by auto
  from assms(8) r(2) have "pipe_takes h (length (frames_in ?s) + length (map tobytes frs))"
    by simp
  from write_frames_all [OF this]
  have "\<exists>s. encoder (stream_rendered h ?s (map tobytes frs)) = Some s \<and> stdin_closed s"
    by (simp add: stream_rendered_def wait60_def stdin_close_def split: option.splits)
  with ne assms(6,7) r(1) have "\<exists>s. encoder ?r = Some s \<and> stdin_closed s"
    by (simp add: create_animation_frames_stream_def Let_def popen_def)
  moreover have "encoder (process rnd cfg inp h) = encoder ?r"
    using assms(2-5) by (simp add: process_def Let_def)
  ultimately show ?thesis by simp
qed

lemma create_animation_encoder:
  assumes "encoder (create_animation rnd cv cfg inp h) = Some s"
  shows "\<exists>frames. create_animation rnd cv cfg inp h = finally_cleanup (stream_to_encoder h frames)
           \<and> encoder (stream_to_encoder h frames) = Some s"
  using assms
  by (auto simp: create_animation_def split: if_splits option.splits)

lemma process_encoder:
  assumes "encoder (process rnd cfg inp h) = Some s"
  shows "encoder (create_animation_frames_stream rnd cfg inp h fresh_animator) = Some s
         \<and> (\<not> returned (create_animation_frames_stream rnd cfg inp h fresh_animator) \<longrightarrow>
              process rnd cfg inp h
              = finally_cleanup (create_animation_frames_stream rnd cfg inp h fresh_animator))"
  using assms
  by (auto simp: process_def Let_def split: if_splits)

text \<open>
  Claim C5, as the code has it. When the pipe has been closed and the encoder does not
  exit within the wait, \<^verbatim>\<open>wait(timeout=60)\<close> raises \<^verbatim>\<open>TimeoutExpired\<close>, which the
  \<^verbatim>\<open>except Exception\<close> of the run answers like any other exception: the run returns
  \<^verbatim>\<open>False\<close>, as it does after a non-zero exit code; the two differ in the line that is
  logged. The encoder is left running. Stated for the contour animator's run and for
  the trace-based animator's.
\<close>

theorem timeout_returns_false_encoder_left_running:
  assumes "r = create_animation rnd cv cfg vin h \<or> r = process rnd cfg tin h"
    and "encoder r = Some s" and "stdin_closed s"
  shows "(exit_code h = None \<longrightarrow>
            \<not> returned r \<and> logged r = [Animation_error TimeoutExpired, Cleaned_up]
            \<and> status s = Running)
       \<and> (\<forall>c. exit_code h = Some c \<and> c \<noteq> 0 \<longrightarrow>
            \<not> returned r \<and> logged r = [FFmpeg_failed c, Cleaned_up] \<and> status s = Exited c)"
  using assms(1)
proof
  assume r: "r = create_animation rnd cv cfg vin h"
  from create_animation_encoder [of rnd cv cfg vin h s] assms(2) r
  obtain frames where f: "r = finally_cleanup (stream_to_encoder h frames)"
    "encoder (stream_to_encoder h frames) = Some s" by auto
  note o = stream_to_encoder_outcome [OF f(2)]
  show ?thesis
    using o(2) o(3) [OF assms(3)] o(4) [OF assms(3)] assms(3)
    by (auto simp: f(1) logged_finally_cleanup [OF o(1)])
next
  assume r: "r = process rnd cfg tin h"
  let ?r0 = "create_animation_frames_stream rnd cfg tin h fresh_animator"
  from process_encoder [of rnd cfg tin h s] assms(2) r
  have e: "encoder ?r0 = Some s" and p: "\<not> returned ?r0 \<Longrightarrow> r = finally_cleanup ?r0"
    by auto
  note o = frames_stream_outcome [OF e]
  show ?thesis
    using o(2) o(3) [OF assms(3)] o(4) [OF assms(3)] assms(3) p
    by (auto simp: logged_finally_cleanup [OF o(1)])
qed

theorem timeout_returns_false_encoder_left_running_witness:
  "logged (create_animation exact square_cv small_config square_v2_input host_never_exits)
     = [Animation_error TimeoutExpired, Cleaned_up]
   \<and> map_option status (encoder (create_animation exact square_cv small_config square_v2_input host_never_exits))
     = Some Running
   \<and> logged (process exact small_config traced_input host_exits_1) = [FFmpeg_failed 1, Cleaned_up]
   \<and> map_option status (encoder (process exact small_config traced_input host_exits_1))
     = Some (Exited 1)"
proof -
  let ?r1 = "create_animation exact square_cv small_config square_v2_input host_never_exits"
  let ?r2 = "process exact small_config traced_input host_exits_1"
  have "\<exists>s. encoder ?r1 = Some s \<and> stdin_closed s"
    by (rule v2_reaches_wait [where cs = "[()]"])
      (simp_all add: square_v2_input_def host_never_exits_def pipe_takes_def mono_exact exact_def)
  then obtain s1 where s1: "encoder ?r1 = Some s1" "stdin_closed s1" by blast
  have "\<exists>s. encoder ?r2 = Some s \<and> stdin_closed s"
    by (rule trace_reaches_wait)
      (simp_all add: traced_input_def host_exits_1_def pipe_takes_def parse_svg_paths_def
        small_total_frames)
  then obtain s2 where s2: "encoder ?r2 = Some s2" "stdin_closed s2" by blast
  from timeout_returns_false_encoder_left_running [where r = ?r1 and h = host_never_exits
      and rnd = exact and cv = square_cv and cfg = small_config and vin = square_v2_input, OF _ s1]
    timeout_returns_false_encoder_left_running [where r = ?r2 and h = host_exits_1
      and rnd = exact and cfg = small_config and tin = traced_input, OF _ s2]
    s1 s2
  show ?thesis by (simp add: host_never_exits_def host_exits_1_def)
qed

text \<open>
  Claim C5 as it is worded fails on the trace-based animator: with an encoder that never
  exits the run returns \<^verbatim>\<open>False\<close>, the value it returns when the encoder exits with code
  1, and the encoder is still running when the run has returned.
\<close>

theorem timeout_counterexample:
  "returned (process exact small_config traced_input host_never_exits) = False
   \<and> returned (process exact small_config traced_input host_exits_1) = False
   \<and> map_option stdin_closed (encoder (process exact small_config traced_input host_never_exits))
     = Some True
   \<and> map_option status (encoder (process exact small_config traced_input host_never_exits))
     = Some Running"
proof -
  let ?r1 = "process exact small_config traced_input host_never_exits"
  let ?r2 = "process exact small_config traced_input host_exits_1"
  let ?c1 = "create_animation_frames_stream exact small_config traced_input host_never_exits fresh_animator"
  let ?c2 = "create_animation_frames_stream exact small_config traced_input host_exits_1 fresh_animator"
  have "\<exists>s. encoder ?r1 = Some s \<and> stdin_closed s"
    by (rule trace_reaches_wait)
      (simp_all add: traced_input_def host_never_exits_def pipe_takes_def parse_svg_paths_def
        small_total_frames)
  then obtain s1 where s1: "encoder ?r1 = Some s1" "stdin_closed s1" by blast
  have "\<exists>s. encoder ?r2 = Some s \<and> stdin_closed s"
    by (rule trace_reaches_wait)
      (simp_all add: traced_input_def host_exits_1_def pipe_takes_def parse_svg_paths_def
        small_total_frames)
  then obtain s2 where s2: "encoder ?r2 = Some s2" "stdin_closed s2" by blast
  from process_encoder [OF s1(1)] have e1: "encoder ?c1 = Some s1"
    and p1: "\<not> returned ?c1 \<Longrightarrow> ?r1 = finally_cleanup ?c1" by auto
  from process_encoder [OF s2(1)] have e2: "encoder ?c2 = Some s2"
    and p2: "\<not> returned ?c2 \<Longrightarrow> ?r2 = finally_cleanup ?c2" by auto
  have x1: "exit_code host_never_exits = None" by (simp add: host_never_exits_def)
  have x2: "exit_code host_exits_1 = Some 1" by (simp add: host_exits_1_def)
  from frames_stream_outcome(3) [OF e1 s1(2) x1] have n1: "\<not> returned ?c1" by simp
  from frames_stream_outcome(4) [OF e2 s2(2) x2] have n2: "\<not> returned ?c2" by simp
  from frames_stream_outcome(2) [OF e1] s1(2) x1 have st: "status s1 = Running" by simp
  from n1 p1 [OF n1] have "returned ?r1 = False" by simp
  moreover from n2 p2 [OF n2] have "returned ?r2 = False" by simp
  ultimately show ?thesis using s1 st by simp
qed





section \<open>An empty extraction\<close>

lemma find_stroke_pixels_nonempty:
  assumes "0 < width cfg" "0 < height cfg"
  shows "find_stroke_pixels cfg mask_img \<noteq> []"
proof -
  from assms have "length (coords (height cfg) (width cfg)) \<noteq> 0" by simp
  then have "coords (height cfg) (width cfg) \<noteq> []" by (simp only: length_0_conv not_False_eq_True)
  then show ?thesis by (simp add: find_stroke_pixels_def Let_def)
qed

lemma sorted_plan_nonempty:
  assumes "sp \<noteq> []"
  shows "fst (color_sort_pixels rnd R sp g) \<noteq> []" "fst (highlight_sort_pixels rnd R sp g) \<noteq> []"
proof -
  from assms have "mset sp \<noteq> {#}" by simp
  then show "fst (color_sort_pixels rnd R sp g) \<noteq> []" "fst (highlight_sort_pixels rnd R sp g) \<noteq> []"
    using mset_color_sort_pixels [of rnd R sp g] mset_highlight_sort_pixels [of rnd R sp g]
    by (metis mset_zero_iff)+
qed

lemma v2_frame_no_contours:
  assumes "rnd 0 = 0"
  shows "v2_frame rnd cv cfg [] frame_idx = Inr (tobytes (np_full (height cfg) (width cfg) white))"
  using assms by (simp add: v2_frame_def contours_to_draw_def py_int_def)

text \<open>
  Claim C3, as the code has it. The colour and the highlight animator fall back to every
  pixel of the canvas when the mask has no stroke pixel, so their drawing plan is never
  empty on a canvas that has a pixel. The other animators have no fallback: the
  whiteboard animator returns \<^verbatim>\<open>False\<close> before it starts an encoder when it has neither
  an outline path nor a colour fill, the trace-based animator does when the SVG file has
  no path, and the contour animator goes on with no contour and writes white frames.
\<close>

theorem empty_extraction_by_variant:
  "(np_where_positive mask_img = [] \<longrightarrow>
      find_stroke_pixels cfg mask_img = coords (height cfg) (width cfg))
   \<and> (0 < width cfg \<and> 0 < height cfg \<longrightarrow>
        color_drawing_plan rnd R cfg mask_img g \<noteq> []
        \<and> highlight_drawing_plan rnd R cfg mask_img g \<noteq> [])
   \<and> (extract_drawing_strokes rnd cv cfg win = Strokes img_color [] [] \<longrightarrow>
        create_whiteboard_animation rnd cv cfg win h
        = \<lparr>returned = False, encoder = None, temp_dir_exists = False,
           logged = [Failed_to_extract, Cleaned_up]\<rparr>)
   \<and> (tools_present tin \<and> preprocessed tin \<and> converted_to_pbm tin \<and> potrace_ran tin
        \<and> parse_svg_paths tin = [] \<longrightarrow>
        process rnd cfg tin h
        = \<lparr>returned = False, encoder = None, temp_dir_exists = False,
           logged = [No_paths_found, Cleaned_up]\<rparr>)
   \<and> (rnd 0 = 0 \<longrightarrow>
        v2_frame rnd cv cfg [] frame_idx = Inr (tobytes (np_full (height cfg) (width cfg) white)))"
proof (intro conjI impI)
  assume "np_where_positive mask_img = []"
  then show "find_stroke_pixels cfg mask_img = coords (height cfg) (width cfg)"
    by (simp add: find_stroke_pixels_def)
next
  assume "0 < width cfg \<and> 0 < height cfg"
  then have ne: "find_stroke_pixels cfg mask_img \<noteq> []"
    by (simp add: find_stroke_pixels_nonempty)
  from sorted_plan_nonempty(1) [OF ne]
  show "color_drawing_plan rnd R cfg mask_img g \<noteq> []"
    by (simp add: color_drawing_plan_def)
  from sorted_plan_nonempty(2) [OF ne]
  show "highlight_drawing_plan rnd R cfg mask_img g \<noteq> []"
    by (simp add: highlight_drawing_plan_def)
next
  assume "extract_drawing_strokes rnd cv cfg win = Strokes img_color [] []"
  then show "create_whiteboard_animation rnd cv cfg win h
        = \<lparr>returned = False, encoder = None, temp_dir_exists = False,
           logged = [Failed_to_extract, Cleaned_up]\<rparr>"
    by (simp add: create_whiteboard_animation_def early_return_def finally_cleanup_def)
next
  assume "tools_present tin \<and> preprocessed tin \<and> converted_to_pbm tin \<and> potrace_ran tin
        \<and> parse_svg_paths tin = []"
  then show "process rnd cfg tin h
        = \<lparr>returned = False, encoder = None, temp_dir_exists = False,
           logged = [No_paths_found, Cleaned_up]\<rparr>"
    by (simp add: process_def create_animation_frames_stream_def early_return_def finally_cleanup_def)
next
  assume "rnd 0 = 0"
  then show "v2_frame rnd cv cfg [] frame_idx = Inr (tobytes (np_full (height cfg) (width cfg) white))"
    by (rule v2_frame_no_contours)
qed

theorem empty_extraction_by_variant_witness:
  "np_where_positive (np_zeros 1 2) = []
   \<and> find_stroke_pixels small_config (np_zeros 1 2) = [(0, 0), (0, 1)]
   \<and> color_drawing_plan exact counting_random small_config (np_zeros 1 2) 0 \<noteq> []
   \<and> returned (create_whiteboard_animation exact square_cv small_config blank_whiteboard_input host_ok)
     = False
   \<and> returned (process exact small_config (traced_input\<lparr>svg_file := Inl ParseError\<rparr>) host_ok) = False
   \<and> v2_frame exact square_cv small_config [] 0 = Inr (replicate 6 255)"
proof -
  have c: "coords (Suc 0) 2 = [(0, 0), (0, 1)]"
    by (simp add: coords_def upt_rec numeral_2_eq_2)
  have e: "np_where_positive (np_zeros 1 2) = []"
    by (simp add: np_where_positive_def np_zeros_def np_full_def c)
  have x: "extract_drawing_strokes exact square_cv small_config blank_whiteboard_input
      = Strokes \<lparr>im_h = 1, im_w = 2, im_px = \<lambda>y x. white\<rparr> [] []"
    by (simp add: extract_drawing_strokes_def blank_whiteboard_input_def small_config_def)
  have r: "replicate 6 (255::byte) = [255, 255, 255, 255, 255, 255]"
    by (simp add: numeral_eq_Suc)
  have b: "tobytes (np_full 1 2 white) = replicate 6 255"
    by (simp add: tobytes_def np_full_def c white_def r)
  from empty_extraction_by_variant [where mask_img = "np_zeros 1 2" and cfg = small_config
      and rnd = exact and R = counting_random and g = 0 and cv = square_cv
      and win = blank_whiteboard_input and img_color = "\<lparr>im_h = 1, im_w = 2, im_px = \<lambda>y x. white\<rparr>"
      and h = host_ok and tin = "traced_input\<lparr>svg_file := Inl ParseError\<rparr>" and frame_idx = 0]
    e x c b
  show ?thesis
    by (simp add: small_config_def traced_input_def parse_svg_paths_def exact_def)
qed

text \<open>
  Claim C3 as it is worded fails on the whiteboard animator: on an image in which no
  contour is found the run fails, and no encoder is started.
\<close>

theorem whiteboard_no_fallback_counterexample:
  "create_whiteboard_animation exact square_cv small_config blank_whiteboard_input host_ok
   = \<lparr>returned = False, encoder = None, temp_dir_exists = False,
      logged = [Failed_to_extract, Cleaned_up]\<rparr>"
  by (simp add: create_whiteboard_animation_def extract_drawing_strokes_def
      blank_whiteboard_input_def small_config_def early_return_def finally_cleanup_def)

section \<open>The hold segment of the whiteboard animator\<close>

lemma concat_chunks_inj:
  assumes "concat (map f ps) = concat (map g ps)"
    and "\<And>p. length (f p) = k" and "\<And>p. length (g p) = k"
    and "p \<in> set ps"
  shows "f p = g p"
  using assms(1,4)
proof (induction ps)
  case Nil
  then show ?case by simp
next
  case (Cons q ps)
  from Cons.prems(1) have "f q @ concat (map f ps) = g q @ concat (map g ps)" by simp
  moreover have "length (f q) = length (g q)" by (simp add: assms(2,3))
  ultimately have "f q = g q" "concat (map f ps) = concat (map g ps)" by simp_all
  with Cons.IH Cons.prems(2) show ?case by auto
qed

lemma tobytes_inj:
  assumes "tobytes a = tobytes b" and "im_h a = im_h b" and "im_w a = im_w b"
    and "y < im_h a" and "x < im_w a"
  shows "im_px a y x = im_px b y x"
proof -
  let ?f = "\<lambda>c (p :: nat \<times> nat). case im_px c (fst p) (snd p) of (c0, c1, c2) \<Rightarrow> [c0, c1, c2]"
  have t: "tobytes c = concat (map (?f c) (coords (im_h c) (im_w c)))" for c :: "bgr image"
    by (simp add: tobytes_def case_prod_unfold)
  have l: "length (?f c p) = 3" for c :: "bgr image" and p
    by (simp split: prod.splits)
  from assms(1-3) have "concat (map (?f a) (coords (im_h a) (im_w a)))
      = concat (map (?f b) (coords (im_h a) (im_w a)))"
    by (simp add: t)
  moreover from assms(4,5) have "(y, x) \<in> set (coords (im_h a) (im_w a))"
    by (simp add: set_coords)
  ultimately have "?f a (y, x) = ?f b (y, x)"
    by (rule concat_chunks_inj [where k = 3, OF _ l l])
  then show ?thesis by (simp split: prod.splits)
qed

lemma whiteboard_canvas_ok:
  assumes "color_frames rnd cfg \<noteq> 0"
  shows "\<exists>canvas. whiteboard_canvas rnd cv cfg img_color outline_paths color_fills frame_idx
           = Inr canvas"
  using assms by (simp add: whiteboard_canvas_def Let_def split: prod.splits)

lemma whiteboard_frames_written:
  assumes "extract_drawing_strokes rnd cv cfg inp = Strokes img_color outline_paths color_fills"
    and "outline_paths \<noteq> [] \<or> color_fills \<noteq> []" and "color_frames rnd cfg \<noteq> 0"
    and "launches h" and "pipe_takes h (nat (total_frames rnd cfg))"
  shows "frames_written (create_whiteboard_animation rnd cv cfg inp h)
         = map (\<lambda>frame_idx. tobytes (cvtColor_BGR2RGB
                  (projr (whiteboard_canvas rnd cv cfg img_color outline_paths color_fills frame_idx))))
             [0..<nat (total_frames rnd cfg)]"
proof -
  let ?n = "nat (total_frames rnd cfg)"
  let ?canvas = "whiteboard_canvas rnd cv cfg img_color outline_paths color_fills"
  let ?fs = "map (\<lambda>frame_idx. tobytes (cvtColor_BGR2RGB (projr (?canvas frame_idx)))) [0..<?n]"
  have "whiteboard_frame rnd cv cfg img_color outline_paths color_fills i
        = Inr (tobytes (cvtColor_BGR2RGB (projr (?canvas i))))" for i
    using whiteboard_canvas_ok [OF assms(3), of cv img_color outline_paths color_fills i]
    by (auto simp: whiteboard_frame_def)
  then have eq: "map (whiteboard_frame rnd cv cfg img_color outline_paths color_fills) [0..<?n]
                 = map Inr ?fs"
    by simp
  from assms(5) have "pipe_takes h (length ?fs)" by simp
  from frames_written_stream [OF assms(4) this] assms(1,2) show ?thesis
    by (auto simp: create_whiteboard_animation_def eq simp del: map_map)
qed

lemma square_total_frames: "total_frames exact square_config = 20"
  by (simp add: total_frames_def total_frames_of_def square_config_def exact_def py_int_def)

lemma square_outline_frames: "outline_frames exact square_config = 10"
  by (simp add: outline_frames_def square_total_frames exact_def py_int_def)

lemma square_color_frames: "color_frames exact square_config = 7"
  by (simp add: color_frames_def square_total_frames exact_def py_int_def)

lemma square_strokes:
  "extract_drawing_strokes exact square_cv square_config square_whiteboard_input
   = Strokes square_image [[(2, 2), (13, 2), (13, 13), (2, 13)]] [()]"
  by (simp add: extract_drawing_strokes_def square_whiteboard_input_def square_config_def
      square_cv_def square_image_def)

lemma whiteboard_canvas_second_pass:
  assumes "outline_frames rnd cfg \<le> int frame_idx" and "color_fills \<noteq> []"
    and "color_frames rnd cfg \<noteq> 0"
  shows "whiteboard_canvas rnd cv cfg img_color outline_paths color_fills frame_idx
         = (let fills_to_draw =
                  py_int (rnd (of_nat (length color_fills)
                    * rnd (of_int (int frame_idx - outline_frames rnd cfg + 1)
                           / of_int (color_frames rnd cfg))));
                drawn =
                  fold (fill_region rnd cv cfg img_color) (take (nat fills_to_draw) color_fills)
                    (fold (\<lambda>stroke_path. draw_segments cv stroke_path (length stroke_path - 1))
                       outline_paths (np_full (height cfg) (width cfg) white),
                     (int (width cfg) div 2, int (height cfg) div 2))
            in Inr (if fills_to_draw < int (length color_fills)
                    then draw_hand_cursor cv (fst drawn) (fst (snd drawn)) (snd (snd drawn)) frame_idx
                    else fst drawn))"
  using assms by (simp add: whiteboard_canvas_def Let_def split: prod.splits)

lemma shape_draw_segments [simp]:
  "im_h (draw_segments cv stroke_path k canvas) = im_h canvas"
  "im_w (draw_segments cv stroke_path k canvas) = im_w canvas"
proof -
  have "im_h (fold (\<lambda>i. keeping_shape (f i)) idxs canvas) = im_h canvas
      \<and> im_w (fold (\<lambda>i. keeping_shape (f i)) idxs canvas) = im_w canvas"
    for f :: "nat \<Rightarrow> bgr image \<Rightarrow> bgr image" and idxs
    by (induction idxs arbitrary: canvas) simp_all
  then show "im_h (draw_segments cv stroke_path k canvas) = im_h canvas"
    "im_w (draw_segments cv stroke_path k canvas) = im_w canvas"
    by (simp_all add: draw_segments_def)
qed

lemma shape_fill_region [simp]:
  "im_h (fst (fill_region rnd cv cfg img_color contour st)) = im_h (fst st)"
  "im_w (fst (fill_region rnd cv cfg img_color contour st)) = im_w (fst st)"
  by (simp_all add: fill_region_def Let_def split: prod.splits)

lemma square_outline_corner:
  "im_px (draw_segments square_cv [(2, 2), (13, 2), (13, 13), (2, 13)] 3 canvas) 0 0
   = im_px canvas 0 0"
proof -
  have u: "[0..<3] = [0, 1, 2]" by (simp add: upt_rec numeral_3_eq_3)
  show ?thesis
    by (simp add: draw_segments_def u keeping_shape_def square_cv_def box_line_def)
qed

lemma square_fill_corner:
  "im_px (fst (fill_region exact square_cv square_config square_image () st)) 0 0
   = im_px (fst st) 0 0"
proof -
  have c: "\<not> contour_covers square_cv () t 0 0" for t
    by (simp add: square_cv_def in_square_def)
  have n: "(0, 0) \<notin> set (np_where_positive
              (drawContours square_cv (np_zeros (height square_config) (width square_config)) () 255 (- 1)))"
    by (simp add: np_where_positive_def drawContours_def np_zeros_def np_full_def c)
  show ?thesis
    by (simp add: fill_region_def Let_def reveal_def n split: prod.splits)
qed

lemma square_hold_canvas:
  assumes "frame_idx = 17 \<or> frame_idx = 18 \<or> frame_idx = 19"
  shows "\<exists>canvas. whiteboard_canvas exact square_cv square_config square_image
             [[(2, 2), (13, 2), (13, 13), (2, 13)]] [()] frame_idx = Inr canvas
           \<and> im_h canvas = 16 \<and> im_w canvas = 16 \<and> im_px canvas 0 0 = white"
proof -
  let ?outlined = "fold (\<lambda>stroke_path. draw_segments square_cv stroke_path (length stroke_path - 1))
                     [[(2, 2), (13, 2), (13, 13), (2, 13)]]
                     (np_full (height square_config) (width square_config) white)"
  let ?drawn = "fill_region exact square_cv square_config square_image ()
                  (?outlined, (int (width square_config) div 2, int (height square_config) div 2))"
  have w: "height square_config = 16" "width square_config = 16"
    by (simp_all add: square_config_def)
  have fl: "\<lfloor>8 / 7 :: rat\<rfloor> = 1" "\<lfloor>9 / 7 :: rat\<rfloor> = 1" "\<lfloor>10 / 7 :: rat\<rfloor> = 1"
    by (simp_all add: floor_eq_iff)
  have "whiteboard_canvas exact square_cv square_config square_image
          [[(2, 2), (13, 2), (13, 13), (2, 13)]] [()] frame_idx = Inr (fst ?drawn)"
    using assms
    by (auto simp: whiteboard_canvas_second_pass square_outline_frames square_color_frames
        Let_def exact_def py_int_def fl)
  moreover have "im_h (fst ?drawn) = 16" "im_w (fst ?drawn) = 16"
    by (simp_all add: w)
  moreover have "im_px (fst ?drawn) 0 0 = white"
    by (simp add: square_fill_corner square_outline_corner [unfolded numeral_3_eq_3] np_full_def)
  ultimately show ?thesis by blast
qed

text \<open>
  Claim C4 fails on the code. The test of the second pass,
  \<^verbatim>\<open>elif frame_idx >= outline_frames and color_fills\<close>, holds for every frame from the end
  of the first pass on when there is a colour fill, so the \<^verbatim>\<open>else\<close> branch with
  \<^verbatim>\<open>canvas = img_color.copy()\<close> is not reached in the hold segment: a hold frame is the
  white canvas with the outlines and the fills. On the image of the square, twenty
  frames are written, the last three are the hold segment, and in each of them the
  corner pixel is white where the image is grey.
\<close>

theorem hold_frames_differ_from_image:
  "extract_drawing_strokes exact square_cv square_config square_whiteboard_input
     = Strokes square_image [[(2, 2), (13, 2), (13, 13), (2, 13)]] [()]
   \<and> hold_frames exact square_config = 3
   \<and> length (frames_written
        (create_whiteboard_animation exact square_cv square_config square_whiteboard_input host_ok)) = 20
   \<and> frames_written
        (create_whiteboard_animation exact square_cv square_config square_whiteboard_input host_ok) ! 17
      \<noteq> tobytes (cvtColor_BGR2RGB square_image)
   \<and> frames_written
        (create_whiteboard_animation exact square_cv square_config square_whiteboard_input host_ok) ! 18
      \<noteq> tobytes (cvtColor_BGR2RGB square_image)
   \<and> frames_written
        (create_whiteboard_animation exact square_cv square_config square_whiteboard_input host_ok) ! 19
      \<noteq> tobytes (cvtColor_BGR2RGB square_image)"
proof -
  let ?run = "create_whiteboard_animation exact square_cv square_config square_whiteboard_input host_ok"
  let ?canvas = "whiteboard_canvas exact square_cv square_config square_image
                   [[(2, 2), (13, 2), (13, 13), (2, 13)]] [()]"
  have written: "frames_written ?run
      = map (\<lambda>frame_idx. tobytes (cvtColor_BGR2RGB (projr (?canvas frame_idx)))) [0..<20]"
    using whiteboard_frames_written [OF square_strokes, of host_ok]
    by (simp add: square_color_frames square_total_frames host_ok_def pipe_takes_def)
  have differs: "frames_written ?run ! i \<noteq> tobytes (cvtColor_BGR2RGB square_image)"
    if i: "i = 17 \<or> i = 18 \<or> i = 19" for i
  proof
    assume eq: "frames_written ?run ! i = tobytes (cvtColor_BGR2RGB square_image)"
    from square_hold_canvas [OF i] obtain canvas where
      c: "?canvas i = Inr canvas" "im_h canvas = 16" "im_w canvas = 16" "im_px canvas 0 0 = white"
      by blast
    from i have "i < 20" by auto
    then have "frames_written ?run ! i = tobytes (cvtColor_BGR2RGB canvas)"
      by (simp add: written c(1))
    with eq have "tobytes (cvtColor_BGR2RGB canvas) = tobytes (cvtColor_BGR2RGB square_image)"
      by simp
    from tobytes_inj [OF this, of 0 0] c(2,3)
    have "im_px (cvtColor_BGR2RGB canvas) 0 0 = im_px (cvtColor_BGR2RGB square_image) 0 0"
      by (simp add: square_image_def)
    with c(4) show False
      by (simp add: cvtColor_BGR2RGB_def square_image_def square_samples_def in_square_def white_def)
  qed
  have "hold_frames exact square_config = 3"
    by (simp add: hold_frames_def square_total_frames square_outline_frames square_color_frames)
  moreover have "length (frames_written ?run) = 20" by (simp add: written)
  ultimately show ?thesis using square_strokes differs by simp
qed

end
